theory Spec2Isabelle
  imports Main "HOL-Library.AList"
begin

section \<open>Genode.IoC: the dependency-injection container of Context.hpp\<close>

text \<open>
  This theory embeds \<^verbatim>\<open>include/Genode/Context.hpp\<close>: the compile-time deduction of a
  constructor's arity (\<^verbatim>\<open>priv::GetConstructorParameterCount\<close>, \<^verbatim>\<open>priv::Constructible\<close>)
  and the run-time container \<^verbatim>\<open>Gx::Context\<close> (\<^verbatim>\<open>Provide\<close>, \<^verbatim>\<open>As\<close>, \<^verbatim>\<open>Require\<close>,
  \<^verbatim>\<open>CreateScope\<close>, \<^verbatim>\<open>Instance::Clone\<close>, \<^verbatim>\<open>Factory::Clone\<close>, \<^verbatim>\<open>BuildParameter(s)\<close>).
\<close>

subsection \<open>Static description of the program's types\<close>

text \<open>
  \<^verbatim>\<open>std::type_index\<close> is the registry key and \<^verbatim>\<open>typeid(T).name()\<close> the text the error
  message is built from; both are the type's name here.
\<close>

type_synonym type_index = string

text \<open>
  An element of \<^verbatim>\<open>priv::ConstructorDescriptor<T>\<close> is either a pointer type \<^verbatim>\<open>U*\<close>
  (\<^verbatim>\<open>std::is_pointer_v\<close> holds, \<^verbatim>\<open>BuildParameter\<close> takes its first branch) or some
  other type \<^verbatim>\<open>U\<close> (second branch).
\<close>

datatype param = Ptr type_index | Ref type_index

text \<open>
  A declared constructor parameter. The placeholder \<^verbatim>\<open>c_op<T, N>\<close> has two conversion
  operators, to \<^verbatim>\<open>U*\<close> and to \<^verbatim>\<open>U&\<close> (lines 68 and 71): it converts to an lvalue
  reference \<^verbatim>\<open>U&\<close>, and it does not convert to an rvalue reference \<^verbatim>\<open>U&&\<close>. The classes
  of a program are taken to be unrelated (no class derives from or converts to
  another), and constructors with parameters of other kinds are outside this
  description.
\<close>

datatype ctor_param = Lvalue type_index | Rvalue type_index

text \<open>
  What the compiler knows of a class \<^verbatim>\<open>T\<close>:
  \<^item> whether it is abstract;
  \<^item> whether a \<^verbatim>\<open>T\<close> can be constructed from an rvalue \<^verbatim>\<open>T\<close>
    (\<^verbatim>\<open>std::is_move_constructible_v<T>\<close>);
  \<^item> the parameter lists of its accessible constructors other than the copy and move
    constructors, in the order of their declaration (\<^verbatim>\<open>fn_def\<close>'s \<^verbatim>\<open>enable_if\<close> keeps the
    placeholder from converting to \<^verbatim>\<open>T\<close> itself);
  \<^item> for the positions \<^verbatim>\<open>N\<close> = 0, 1, ... the tuple element
    \<^verbatim>\<open>decltype(loophole(tag<T, N>{}))\<close> has after \<^verbatim>\<open>GetConstructorParameterCount<T>(0)\<close> was
    evaluated. The friend function \<^verbatim>\<open>loophole(tag<T, N>)\<close> is defined by the first
    conversion of a placeholder at position \<^verbatim>\<open>N\<close> that overload resolution instantiates
    (\<^verbatim>\<open>fn_def<T, U, N, false>\<close>, line 49); every later one finds it defined and defines
    nothing (line 54). Which conversion comes first is decided inside the compiler, and
    a probe that fails for ambiguity has instantiated conversions too, so the
    description of the class states the outcome: for \<^verbatim>\<open>A(B&, C&)\<close> it is \<^verbatim>\<open>B, C\<close>; for a
    class with \<^verbatim>\<open>M(B&)\<close>, \<^verbatim>\<open>M(C&)\<close> and \<^verbatim>\<open>M(X&, Y&)\<close> it is \<^verbatim>\<open>B, Y\<close>, the \<^verbatim>\<open>B\<close> left by
    the ambiguous probe with one placeholder.
\<close>

record class_info =
  is_abstract :: bool
  is_move_constructible :: bool
  ctors :: "ctor_param list list"
  recorded :: "param list"

type_synonym type_table = "type_index \<Rightarrow> class_info"

definition MaxParameterCount :: nat where
  "MaxParameterCount = 100"

fun convertible :: "ctor_param \<Rightarrow> bool" where
  "convertible (Lvalue U) = True"
| "convertible (Rvalue U) = False"

text \<open>
  \<open>probe c n\<close>: the expression \<^verbatim>\<open>T(priv::c_op<T, 0>{}, ..., priv::c_op<T, n-1>{})\<close> in the
  trailing return type of the first overload (line 88) is well formed. A constructor
  is viable when it takes \<open>n\<close> parameters and a placeholder converts to each of them;
  every such conversion is a user-defined one, so the call is well formed exactly when
  one constructor is viable: none is no match, two are an ambiguous call. An abstract
  class cannot be constructed at all.
\<close>

definition probe :: "class_info \<Rightarrow> nat \<Rightarrow> bool" where
  "probe c n =
     (\<not> is_abstract c
      \<and> length (filter (\<lambda>ps. length ps = n \<and> list_all convertible ps) (ctors c)) = 1)"

text \<open>\<^verbatim>\<open>std::is_default_constructible_v<T>\<close>: \<^verbatim>\<open>T()\<close> is well formed.\<close>

definition is_default_constructible :: "class_info \<Rightarrow> bool" where
  "is_default_constructible c = probe c 0"

text \<open>
  Lines 87 to 106. The second argument is \<^verbatim>\<open>sizeof...(Ns)\<close>. Called with \<^verbatim>\<open>0\<close>, the
  overload taking \<^verbatim>\<open>int\<close> is chosen when its return type is well formed and returns
  \<^verbatim>\<open>sizeof...(Ns)\<close>; otherwise the variadic overload is chosen, which goes on with one
  more placeholder while \<^verbatim>\<open>sizeof...(Ns) < MaxParameterCount\<close> and returns
  \<^verbatim>\<open>sizeof...(Ns)\<close> when the limit is reached. The third overload takes a
  \<^verbatim>\<open>std::integral_constant\<close>, to which \<^verbatim>\<open>0\<close> does not convert: it is never chosen.
\<close>

function GetConstructorParameterCount :: "class_info \<Rightarrow> nat \<Rightarrow> nat" where
  "GetConstructorParameterCount c n =
     (if probe c n then n
      else if n < MaxParameterCount then GetConstructorParameterCount c (Suc n)
      else n)"
  by pat_completeness auto
termination
  by (relation "measure (\<lambda>(c, n). MaxParameterCount - n)") auto

declare GetConstructorParameterCount.simps [simp del]

text \<open>Line 117.\<close>

definition Constructible :: "class_info \<Rightarrow> bool" where
  "Constructible c =
     (\<not> is_abstract c \<and>
      (is_default_constructible c \<or> GetConstructorParameterCount c 0 < MaxParameterCount))"

text \<open>
  Lines 76 to 82 and 110: the tuple of \<^verbatim>\<open>decltype(loophole(tag<T, N>{}))\<close> for the
  positions \<^verbatim>\<open>N\<close> below \<^verbatim>\<open>GetConstructorParameterCount<T>(0)\<close>. The alias does not compile
  (\<open>None\<close>) when a position has no definition of the friend function, and when the
  type recorded at a position cannot be returned by value (line 49 returns
  \<^verbatim>\<open>*static_cast<U*>(nullptr)\<close> as \<^verbatim>\<open>auto\<close>), which is the case for an abstract class.
\<close>

fun returnable :: "type_table \<Rightarrow> param \<Rightarrow> bool" where
  "returnable tt (Ptr U) = True"
| "returnable tt (Ref U) = (\<not> is_abstract (tt U))"

definition ConstructorDescriptor :: "type_table \<Rightarrow> type_index \<Rightarrow> param list option" where
  "ConstructorDescriptor tt T =
     (let n = GetConstructorParameterCount (tt T) 0;
          elements = take n (recorded (tt T))
      in if n \<le> length (recorded (tt T)) \<and> list_all (returnable tt) elements
         then Some elements
         else None)"

text \<open>
  Line 163, \<^verbatim>\<open>std::make_unique<T>(std::make_from_tuple<T>(...))\<close>, for a tuple of these
  elements: \<^verbatim>\<open>BuildParameter\<close> yields an lvalue \<^verbatim>\<open>U&\<close> for an element \<^verbatim>\<open>U\<close> and a pointer
  value for an element \<^verbatim>\<open>U*\<close>. The expression compiles when \<^verbatim>\<open>T\<close> is not abstract, some
  constructor of \<^verbatim>\<open>T\<close> takes these arguments, and the \<^verbatim>\<open>T\<close> so made can be moved to the
  heap.
\<close>

fun accepts :: "ctor_param \<Rightarrow> param \<Rightarrow> bool" where
  "accepts (Lvalue U) (Ref V) = (U = V)"
| "accepts (Lvalue U) (Ptr V) = False"
| "accepts (Rvalue U) p = False"

definition constructs :: "class_info \<Rightarrow> param list \<Rightarrow> bool" where
  "constructs c ps =
     (\<not> is_abstract c \<and> is_move_constructible c
      \<and> list_ex (\<lambda>qs. list_all2 accepts qs ps) (ctors c))"

text \<open>The body of the closure \<^verbatim>\<open>As<T>()\<close> returns (lines 161 to 164) compiles.\<close>

definition As_compiles :: "type_table \<Rightarrow> type_index \<Rightarrow> bool" where
  "As_compiles tt T =
     (case ConstructorDescriptor tt T of
        None \<Rightarrow> False
      | Some ps \<Rightarrow> constructs (tt T) ps)"

subsection \<open>Registry entries, containers and the objects they hold\<close>

datatype Scope = Local | Singleton

text \<open>
  A \<^verbatim>\<open>Builder<T>\<close> is a \<^verbatim>\<open>std::function\<close>: either the closure \<^verbatim>\<open>As<U>()\<close> returns
  (lines 161 to 164), or a closure the caller wrote, named by its number in the
  program.
\<close>

datatype Builder = As type_index | Closure nat

text \<open>
  \<^verbatim>\<open>struct Base\<close>, \<^verbatim>\<open>Instance<T> : Base\<close> and \<^verbatim>\<open>Factory<T> : Base\<close> (lines 230 to 268).
  An object is known by the serial number of its allocation; a \<^verbatim>\<open>std::unique_ptr<T>\<close>
  is such a number or null.
\<close>

record Base =
  Scope :: Scope

record Instance = Base +
  Handle :: "nat option"

record Factory = Base +
  Builder :: Builder

type_synonym 'a StorageMap = "(type_index \<times> 'a) list"

text \<open>
  \<^verbatim>\<open>class Context\<close> (lines 292 to 294). \<^verbatim>\<open>m_parent\<close> is written by the cloning
  constructor and read nowhere, so it is left out. A \<^verbatim>\<open>std::unordered_map\<close> holds one
  entry for a key; \<open>map_of\<close> is \<^verbatim>\<open>find\<close> and \<open>AList.update\<close> is the assignment through
  \<^verbatim>\<open>operator[]\<close>.
\<close>

record Context =
  m_instances :: "Instance StorageMap"
  m_factories :: "Factory StorageMap"

text \<open>
  An object built by \<^verbatim>\<open>std::make_unique<T>\<close>: its class and the constructor arguments
  it was given. The state a member function of \<^verbatim>\<open>Context\<close> runs in is the container
  itself (\<^verbatim>\<open>*this\<close>), every object allocated so far, and every \<^verbatim>\<open>delete\<close> executed so far.
\<close>

record object =
  class_name :: type_index
  ctor_args :: "nat option list"

record state =
  ctx :: Context
  objects :: "object list"
  deleted :: "nat list"

text \<open>
  \<^verbatim>\<open>std::runtime_error\<close> with its message; the rejection of the program by a
  \<^verbatim>\<open>static_assert\<close> with its message; and its rejection by the compiler for another
  reason. A rejection is reported where the instantiation that causes it would run.
  \<open>None\<close> is a call that does not return (the recursion of \<^verbatim>\<open>Require\<close> through the
  builders has no bound).
\<close>

datatype error = runtime_error string | static_assert_failed string | ill_formed

type_synonym 'a result = "(error + 'a \<times> state) option"

abbreviation Return :: "'a \<Rightarrow> state \<Rightarrow> 'a result" where
  "Return x s \<equiv> Some (Inr (x, s))"

abbreviation Raise :: "error \<Rightarrow> 'a result" where
  "Raise e \<equiv> Some (Inl e)"

definition and_then :: "'a result \<Rightarrow> ('a \<Rightarrow> state \<Rightarrow> 'b result) \<Rightarrow> 'b result" where
  "and_then r f =
     (case r of
        None \<Rightarrow> None
      | Some (Inl e) \<Rightarrow> Raise e
      | Some (Inr (x, s)) \<Rightarrow> f x s)"

text \<open>
  The nullable \<^verbatim>\<open>Require<T*>\<close> as its callers see it, and the body of a closure the
  caller wrote: it is given the container by reference and may resolve through it.
  C++ leaves the order in which the arguments of a function call are evaluated to the
  compiler; \<^verbatim>\<open>BuildParameters\<close> (line 282) expands its pack into the arguments of
  \<^verbatim>\<open>std::tuple_cat\<close>, so the order is part of the program as compiled.
\<close>

type_synonym require = "type_index \<Rightarrow> state \<Rightarrow> nat option result"

type_synonym closure = "require \<Rightarrow> state \<Rightarrow> nat option result"

datatype arg_order = LeftToRight | RightToLeft

record program =
  class_of :: type_table
  closure_body :: "nat \<Rightarrow> closure"
  arg_order :: arg_order

subsection \<open>Allocation, release and the two maps\<close>

definition make_unique :: "type_index \<Rightarrow> nat option list \<Rightarrow> state \<Rightarrow> nat option result" where
  "make_unique T args s =
     Return (Some (length (objects s)))
       (s\<lparr>objects := objects s @ [\<lparr>class_name = T, ctor_args = args\<rparr>]\<rparr>)"

text \<open>The destructor of a \<^verbatim>\<open>std::unique_ptr<T>\<close>: \<^verbatim>\<open>delete\<close> unless null.\<close>

definition release :: "nat option \<Rightarrow> state \<Rightarrow> state" where
  "release h s = (case h of None \<Rightarrow> s | Some a \<Rightarrow> s\<lparr>deleted := deleted s @ [a]\<rparr>)"

text \<open>
  \<^verbatim>\<open>m_instances[type] = ...\<close>: the entry is replaced, and the \<^verbatim>\<open>Instance<T>\<close> that was
  there, if any, is destroyed with its \<^verbatim>\<open>Handle\<close>.
\<close>

definition assign_instance :: "type_index \<Rightarrow> Instance \<Rightarrow> state \<Rightarrow> state" where
  "assign_instance T i s =
     (let s' = s\<lparr>ctx := (ctx s)\<lparr>m_instances := AList.update T i (m_instances (ctx s))\<rparr>\<rparr>
      in case map_of (m_instances (ctx s)) T of
           None \<Rightarrow> s'
         | Some old \<Rightarrow> release (Handle old) s')"

definition assign_factory :: "type_index \<Rightarrow> Factory \<Rightarrow> state \<Rightarrow> state" where
  "assign_factory T f s =
     s\<lparr>ctx := (ctx s)\<lparr>m_factories := AList.update T f (m_factories (ctx s))\<rparr>\<rparr>"

subsection \<open>Resolution\<close>

text \<open>Lines 195 to 203, over the nullable form \<open>req\<close>.\<close>

definition not_provided :: "type_index \<Rightarrow> string" where
  "not_provided T = T @ '' is not constructible and not provided within the current context.''"

definition Require_ref :: "require \<Rightarrow> type_index \<Rightarrow> state \<Rightarrow> nat result" where
  "Require_ref req T s =
     and_then (req (T::type_index) s) (\<lambda>instance s'.
       case instance of
         Some a \<Rightarrow> Return a s'
       | None \<Rightarrow> Raise (runtime_error (not_provided T)))"

text \<open>Lines 270 to 277.\<close>

fun BuildParameter :: "require \<Rightarrow> param \<Rightarrow> state \<Rightarrow> nat option result" where
  "BuildParameter req (Ptr T) s = req T s"
| "BuildParameter req (Ref T) s = and_then (Require_ref req T s) (\<lambda>a s'. Return (Some a) s')"

text \<open>
  Lines 279 to 290. \<open>one_by_one\<close> evaluates the calls \<^verbatim>\<open>BuildParameter<...>()\<close> for a
  list of tuple elements from its head on; \<^verbatim>\<open>std::tuple_cat\<close> puts the results in the
  order of the tuple whichever argument was evaluated first.
\<close>

fun one_by_one :: "require \<Rightarrow> param list \<Rightarrow> state \<Rightarrow> nat option list result" where
  "one_by_one req [] s = Return [] s"
| "one_by_one req (p # ps) s =
     and_then (BuildParameter req p s) (\<lambda>a s1.
       and_then (one_by_one req ps s1) (\<lambda>as s2. Return (a # as) s2))"

definition BuildParameters :: "require \<Rightarrow> arg_order \<Rightarrow> param list \<Rightarrow> state \<Rightarrow> nat option list result" where
  "BuildParameters req ord ps s =
     (case ord of
        LeftToRight \<Rightarrow> one_by_one req ps s
      | RightToLeft \<Rightarrow> and_then (one_by_one req (rev ps) s) (\<lambda>as s'. Return (rev as) s'))"

text \<open>
  The call \<^verbatim>\<open>builder(ctx)\<close>. For \<^verbatim>\<open>As<T>()\<close> it is lines 161 to 164: the parameters are
  built through \<^verbatim>\<open>ctx\<close>, then \<^verbatim>\<open>T\<close> is constructed from them on the heap. Where
  \<^verbatim>\<open>ConstructorDescriptor<T>\<close> or the construction of line 163 does not compile,
  neither does the closure.
\<close>

fun call :: "program \<Rightarrow> require \<Rightarrow> Builder \<Rightarrow> state \<Rightarrow> nat option result" where
  "call prog req (As T) s =
     (case ConstructorDescriptor (class_of prog) T of
        None \<Rightarrow> Raise ill_formed
      | Some ps \<Rightarrow>
          if constructs (class_of prog T) ps
          then and_then (BuildParameters req (arg_order prog) ps s)
                 (\<lambda>args s'. make_unique T args s')
          else Raise ill_formed)"
| "call prog req (Closure i) s = closure_body prog i req s"

text \<open>
  Lines 148 to 156. The right-hand side of the assignment to \<^verbatim>\<open>m_instances[type]\<close> is
  evaluated first (the builder runs), then the two entries are stored.
\<close>

definition Provide_builder ::
  "program \<Rightarrow> require \<Rightarrow> type_index \<Rightarrow> Builder \<Rightarrow> Scope \<Rightarrow> state \<Rightarrow> unit result" where
  "Provide_builder prog req T builder scope s =
     and_then (call prog req builder s) (\<lambda>handle s'.
       Return ()
         (assign_factory T \<lparr>Scope = scope, Builder = builder\<rparr>
           (assign_instance T \<lparr>Scope = scope, Handle = handle\<rparr> s')))"

text \<open>
  Lines 136 to 146: the two overloads of \<^verbatim>\<open>Provide<T>(Scope)\<close>, of which
  \<^verbatim>\<open>std::enable_if_t\<close> leaves one; the second is the \<^verbatim>\<open>static_assert\<close>.
\<close>

definition use_builder_overload :: string where
  "use_builder_overload =
     ''Use Provide<T>(Builder<T>, Scope) instead for interface or complex constructible type.''"

definition Provide :: "program \<Rightarrow> require \<Rightarrow> type_index \<Rightarrow> Scope \<Rightarrow> state \<Rightarrow> unit result" where
  "Provide prog req T scope s =
     (if Constructible (class_of prog T) then Provide_builder prog req T (As T) scope s
      else Raise (static_assert_failed use_builder_overload))"

text \<open>
  Lines 167 to 193, with the calls of \<^verbatim>\<open>Require<T*>\<close> made from inside (by the builders
  and by the retry of line 189) going to \<open>req\<close>.
\<close>

definition Require_body :: "program \<Rightarrow> require \<Rightarrow> type_index \<Rightarrow> state \<Rightarrow> nat option result" where
  "Require_body prog req T s =
     (case map_of (m_instances (ctx s)) T of
        Some instance \<Rightarrow> Return (Handle instance) s
      | None \<Rightarrow>
          (case map_of (m_factories (ctx s)) T of
             Some factory \<Rightarrow>
               and_then (call prog req (Builder factory) s) (\<lambda>handle s'.
                 Return handle (assign_instance T \<lparr>Scope = Local, Handle = handle\<rparr> s'))
           | None \<Rightarrow>
               if Constructible (class_of prog T)
               then and_then (Provide prog req T Local s) (\<lambda>_ s'. req T s')
               else Return None s))"

text \<open>
  \<^verbatim>\<open>Require<T*>()\<close> itself. The first argument bounds the depth to which the calls of
  \<^verbatim>\<open>Require<T*>\<close> nest; a call that would nest deeper does not return here.
\<close>

fun Require_ptr :: "program \<Rightarrow> nat \<Rightarrow> type_index \<Rightarrow> state \<Rightarrow> nat option result" where
  "Require_ptr prog 0 T s = None"
| "Require_ptr prog (Suc n) T s = Require_body prog (Require_ptr prog n) T s"

subsection \<open>Scopes and destruction\<close>

text \<open>Lines 244 to 250 and 259 to 265; \<open>None\<close> is the \<^verbatim>\<open>nullptr\<close> they return.\<close>

definition Instance_Clone :: "Instance \<Rightarrow> Instance option" where
  "Instance_Clone i =
     (if Scope i = Local then None else Some \<lparr>Scope = Scope i, Handle = Handle i\<rparr>)"

definition Factory_Clone :: "Factory \<Rightarrow> Factory option" where
  "Factory_Clone f =
     (if Scope f = Singleton then None else Some \<lparr>Scope = Scope f, Builder = Builder f\<rparr>)"

text \<open>Lines 205 to 227: the two loops of the cloning constructor.\<close>

definition clone_into :: "('a \<Rightarrow> 'a option) \<Rightarrow> 'a StorageMap \<Rightarrow> 'a StorageMap \<Rightarrow> 'a StorageMap" where
  "clone_into Clone other m =
     foldl (\<lambda>m (type, entry). case Clone entry of None \<Rightarrow> m | Some clone \<Rightarrow> AList.update type clone m)
       m other"

definition CreateScope :: "Context \<Rightarrow> Context" where
  "CreateScope other =
     \<lparr>m_instances = clone_into Instance_Clone (m_instances other) [],
      m_factories = clone_into Factory_Clone (m_factories other) []\<rparr>"

text \<open>
  \<^verbatim>\<open>~Context()\<close> is defaulted (line 134): the members are destroyed, and with
  \<^verbatim>\<open>m_instances\<close> every \<^verbatim>\<open>Instance<T>\<close> in it and its \<^verbatim>\<open>Handle\<close>.
\<close>

definition destroy :: "Context \<Rightarrow> state \<Rightarrow> state" where
  "destroy c s = foldl (\<lambda>s (type, instance). release (Handle instance) s) s (m_instances c)"

subsection \<open>Describing the order of evaluation\<close>

text \<open>
  \<open>evaluated ord n k\<close> is the position, in a tuple of \<open>n\<close> elements, of the element whose
  \<^verbatim>\<open>BuildParameter\<close> call is the \<open>k\<close>-th to be evaluated under the order \<open>ord\<close>.
\<close>

definition evaluated :: "arg_order \<Rightarrow> nat \<Rightarrow> nat \<Rightarrow> nat" where
  "evaluated ord n k = (case ord of LeftToRight \<Rightarrow> k | RightToLeft \<Rightarrow> n - Suc k)"

subsection \<open>Closures that only allocate\<close>

text \<open>
  \<open>grows s r\<close>: a call that started in \<open>s\<close> and returned has not taken an object out of
  the record of allocations. A program's closures keep the objects when each of them
  has this property whenever the resolver it is given has it.
\<close>

definition grows :: "state \<Rightarrow> 'a result \<Rightarrow> bool" where
  "grows s r =
     (case r of
        Some (Inr (x, s')) \<Rightarrow> length (objects s) \<le> length (objects s')
      | _ \<Rightarrow> True)"

definition closures_keep_objects :: "program \<Rightarrow> bool" where
  "closures_keep_objects prog =
     (\<forall>i req. (\<forall>T s. grows s (req T s)) \<longrightarrow> (\<forall>s. grows s (closure_body prog i req s)))"

subsection \<open>Example programs\<close>



text \<open>
  A program with the classes \<^verbatim>\<open>A(B&, C&)\<close>; \<^verbatim>\<open>B\<close>, \<^verbatim>\<open>C\<close>, \<^verbatim>\<open>P\<close>, \<^verbatim>\<open>Q\<close>, \<^verbatim>\<open>X\<close>, \<^verbatim>\<open>Y\<close> with a default
  constructor each; \<^verbatim>\<open>D(I&)\<close> for an abstract \<^verbatim>\<open>I\<close>; \<^verbatim>\<open>J\<close> with the two constructors
  \<^verbatim>\<open>J(P&)\<close> and \<^verbatim>\<open>J(Q&)\<close>; \<^verbatim>\<open>E(J&)\<close>; \<^verbatim>\<open>M\<close> with \<^verbatim>\<open>M(B&)\<close>, \<^verbatim>\<open>M(C&)\<close> and \<^verbatim>\<open>M(X&, Y&)\<close>; \<^verbatim>\<open>N\<close>
  with a default constructor and deleted copy and move constructors; and abstract
  classes otherwise. Its closure 0 returns a null pointer, the others build an
  \<^verbatim>\<open>Impl\<close>.
\<close>

definition concrete :: "ctor_param list list \<Rightarrow> param list \<Rightarrow> class_info" where
  "concrete cs rs =
     \<lparr>is_abstract = False, is_move_constructible = True, ctors = cs, recorded = rs\<rparr>"

definition example_types :: type_table where
  "example_types T =
     (if T = ''A'' then concrete [[Lvalue ''B'', Lvalue ''C'']] [Ref ''B'', Ref ''C'']
      else if T \<in> set [''B'', ''C'', ''P'', ''Q'', ''X'', ''Y''] then concrete [[]] []
      else if T = ''D'' then concrete [[Lvalue ''I'']] [Ref ''I'']
      else if T = ''E'' then concrete [[Lvalue ''J'']] [Ref ''J'']
      else if T = ''J'' then concrete [[Lvalue ''P''], [Lvalue ''Q'']] [Ref ''P'']
      else if T = ''M'' then
        concrete [[Lvalue ''B''], [Lvalue ''C''], [Lvalue ''X'', Lvalue ''Y'']] [Ref ''B'', Ref ''Y'']
      else if T = ''N'' then
        \<lparr>is_abstract = False, is_move_constructible = False, ctors = [[]], recorded = []\<rparr>
      else \<lparr>is_abstract = True, is_move_constructible = False, ctors = [], recorded = []\<rparr>)"

definition example_closure :: "nat \<Rightarrow> closure" where
  "example_closure i req s = (if i = 0 then Return None s else make_unique ''Impl'' [] s)"

definition example :: "arg_order \<Rightarrow> program" where
  "example ord = \<lparr>class_of = example_types, closure_body = example_closure, arg_order = ord\<rparr>"

definition empty_state :: state where
  "empty_state = \<lparr>ctx = \<lparr>m_instances = [], m_factories = []\<rparr>, objects = [], deleted = []\<rparr>"

text \<open>
  A container holding a \<^verbatim>\<open>Singleton\<close> builder for \<^verbatim>\<open>I\<close> and no instance of it.
\<close>

definition orphan_factory :: state where
  "orphan_factory =
     \<lparr>ctx = \<lparr>m_instances = [],
             m_factories = [(''I'', \<lparr>Scope = Singleton, Builder = Closure 1\<rparr>)]\<rparr>,
      objects = [], deleted = []\<rparr>"

text \<open>
  The container after \<^verbatim>\<open>Provide<B>(Scope::Singleton)\<close> and \<^verbatim>\<open>Provide<C>(Scope::Local)\<close>.
\<close>

definition scoped_parent :: state where
  "scoped_parent =
     \<lparr>ctx = \<lparr>m_instances = [(''B'', \<lparr>Scope = Singleton, Handle = Some 0\<rparr>),
                            (''C'', \<lparr>Scope = Local, Handle = Some 1\<rparr>)],
             m_factories = [(''B'', \<lparr>Scope = Singleton, Builder = As ''B''\<rparr>),
                            (''C'', \<lparr>Scope = Local, Builder = As ''C''\<rparr>)]\<rparr>,
      objects = [\<lparr>class_name = ''B'', ctor_args = []\<rparr>, \<lparr>class_name = ''C'', ctor_args = []\<rparr>],
      deleted = []\<rparr>"

section \<open>Properties\<close>

subsection \<open>The deduced arity\<close>







subsection \<open>Constructibility and the two overloads of Provide\<close>




lemma example_count [simp]:
  "GetConstructorParameterCount (example_types ''A'') 0 = 2"
  "GetConstructorParameterCount (example_types ''B'') 0 = 0"
  "GetConstructorParameterCount (example_types ''C'') 0 = 0"
  "GetConstructorParameterCount (example_types ''D'') 0 = 1"
  "GetConstructorParameterCount (example_types ''E'') 0 = 1"
  "GetConstructorParameterCount (example_types ''M'') 0 = 2"
  "GetConstructorParameterCount (example_types ''N'') 0 = 0"
  "GetConstructorParameterCount (example_types ''I'') 0 = 100"
  "GetConstructorParameterCount (example_types ''J'') 0 = 100"
  by (simp_all add: example_types_def concrete_def probe_def
      GetConstructorParameterCount.simps MaxParameterCount_def)

lemma example_Constructible [simp]:
  "Constructible (example_types ''A'')" "Constructible (example_types ''B'')"
  "Constructible (example_types ''C'')" "Constructible (example_types ''D'')"
  "Constructible (example_types ''E'')" "Constructible (example_types ''M'')"
  "Constructible (example_types ''N'')"
  "\<not> Constructible (example_types ''I'')" "\<not> Constructible (example_types ''J'')"
  by (simp_all add: Constructible_def MaxParameterCount_def)
    (simp_all add: example_types_def concrete_def is_default_constructible_def probe_def)

lemma example_descriptor [simp]:
  "ConstructorDescriptor example_types ''A'' = Some [Ref ''B'', Ref ''C'']"
  "ConstructorDescriptor example_types ''B'' = Some []"
  "ConstructorDescriptor example_types ''C'' = Some []"
  "ConstructorDescriptor example_types ''D'' = None"
  "ConstructorDescriptor example_types ''E'' = Some [Ref ''J'']"
  "ConstructorDescriptor example_types ''M'' = Some [Ref ''B'', Ref ''Y'']"
  "ConstructorDescriptor example_types ''N'' = Some []"
  by (simp_all add: ConstructorDescriptor_def)
    (simp_all add: example_types_def concrete_def)

lemma example_constructs [simp]:
  "constructs (example_types ''A'') [Ref ''B'', Ref ''C'']"
  "constructs (example_types ''B'') []"
  "constructs (example_types ''C'') []"
  "constructs (example_types ''E'') [Ref ''J'']"
  "\<not> constructs (example_types ''M'') [Ref ''B'', Ref ''Y'']"
  "\<not> constructs (example_types ''N'') []"
  by (simp_all add: constructs_def example_types_def concrete_def)



subsection \<open>Provide and Require\<close>

lemma and_then_Return:
  "and_then r f = Return y t \<longleftrightarrow> (\<exists>x s. r = Return x s \<and> f x s = Return y t)"
  by (auto simp: and_then_def split: option.splits sum.splits)

lemma and_then_Raise:
  "and_then r f = Raise e \<longleftrightarrow> r = Raise e \<or> (\<exists>x s. r = Return x s \<and> f x s = Raise e)"
  by (auto simp: and_then_def split: option.splits sum.splits)

lemma and_then_simps [simp]:
  "and_then None f = None"
  "and_then (Raise e) f = Raise e"
  "and_then (Return x s) f = f x s"
  by (simp_all add: and_then_def)

lemma release_fields [simp]:
  "ctx (release h s) = ctx s" "objects (release h s) = objects s"
  by (simp_all add: release_def split: option.splits)

lemma assign_instance_fields [simp]:
  "map_of (m_instances (ctx (assign_instance T i s))) = (map_of (m_instances (ctx s)))(T \<mapsto> i)"
  "m_factories (ctx (assign_instance T i s)) = m_factories (ctx s)"
  "objects (assign_instance T i s) = objects s"
  by (simp_all add: assign_instance_def Let_def update_conv' split: option.splits)

lemma assign_factory_fields [simp]:
  "map_of (m_factories (ctx (assign_factory T f s))) = (map_of (m_factories (ctx s)))(T \<mapsto> f)"
  "m_instances (ctx (assign_factory T f s)) = m_instances (ctx s)"
  "objects (assign_factory T f s) = objects s"
  "deleted (assign_factory T f s) = deleted s"
  by (simp_all add: assign_factory_def update_conv')

lemma Require_ptr_cached:
  "map_of (m_instances (ctx s)) T = Some instance \<Longrightarrow>
   Require_ptr prog (Suc n) T s = Return (Handle instance) s"
  by (simp add: Require_body_def)

text \<open>
  C4. \<^verbatim>\<open>Provide<T>(builder, scope)\<close> is one call of the builder in the state of the
  registering container: when the call returns a handle, \<^verbatim>\<open>Provide\<close> returns in the
  state the builder left, changed only by the two assignments, after which
  \<^verbatim>\<open>m_instances\<close> maps \<^verbatim>\<open>T\<close> to the handle and \<^verbatim>\<open>m_factories\<close> maps it to the builder, both
  with the declared scope, and no object has been allocated since the builder
  returned; when the call raises or does not return, so does \<^verbatim>\<open>Provide\<close>.
\<close>

theorem C4_Provide_builder_eager:
  "(call prog req builder s = Return handle s' \<longrightarrow>
      (\<exists>s''. Provide_builder prog req T builder scope s = Return () s''
         \<and> s'' = assign_factory T \<lparr>Scope = scope, Builder = builder\<rparr>
                  (assign_instance T \<lparr>Scope = scope, Handle = handle\<rparr> s')
         \<and> map_of (m_instances (ctx s'')) T = Some \<lparr>Scope = scope, Handle = handle\<rparr>
         \<and> map_of (m_factories (ctx s'')) T = Some \<lparr>Scope = scope, Builder = builder\<rparr>
         \<and> objects s'' = objects s'))
   \<and> (call prog req builder s = Raise e \<longrightarrow> Provide_builder prog req T builder scope s = Raise e)
   \<and> (call prog req builder s = None \<longrightarrow> Provide_builder prog req T builder scope s = None)"
  by (simp add: Provide_builder_def)


lemma example_closure_simps [simp]:
  "closure_body (example ord) 0 req s = Return None s"
  "closure_body (example ord) (Suc i) req s = make_unique ''Impl'' [] s"
  "class_of (example ord) = example_types"
  "arg_order (example ord) = ord"
  by (simp_all add: example_def example_closure_def)

theorem C4_witness:
  "call (example LeftToRight) (Require_ptr (example LeftToRight) 0) (Closure 1) empty_state
     = Return (Some 0) (empty_state\<lparr>objects := [\<lparr>class_name = ''Impl'', ctor_args = []\<rparr>]\<rparr>)
   \<and> Provide_builder (example LeftToRight) (Require_ptr (example LeftToRight) 0) ''I'' (Closure 1)
        Singleton empty_state
     = Return ()
         \<lparr>ctx = \<lparr>m_instances = [(''I'', \<lparr>Scope = Singleton, Handle = Some 0\<rparr>)],
                 m_factories = [(''I'', \<lparr>Scope = Singleton, Builder = Closure 1\<rparr>)]\<rparr>,
          objects = [\<lparr>class_name = ''Impl'', ctor_args = []\<rparr>], deleted = []\<rparr>"
proof -
  let ?p = "example LeftToRight"
  have c: "call ?p (Require_ptr ?p 0) (Closure 1) empty_state
     = Return (Some 0) (empty_state\<lparr>objects := [\<lparr>class_name = ''Impl'', ctor_args = []\<rparr>]\<rparr>)"
    by (simp add: make_unique_def empty_state_def)
  with C4_Provide_builder_eager [of ?p "Require_ptr ?p 0" "Closure 1" empty_state "Some 0"
      "empty_state\<lparr>objects := [\<lparr>class_name = ''Impl'', ctor_args = []\<rparr>]\<rparr>" "''I''" Singleton]
  have "Provide_builder ?p (Require_ptr ?p 0) ''I'' (Closure 1) Singleton empty_state
     = Return () (assign_factory ''I'' \<lparr>Scope = Singleton, Builder = Closure 1\<rparr>
                  (assign_instance ''I'' \<lparr>Scope = Singleton, Handle = Some 0\<rparr>
                    (empty_state\<lparr>objects := [\<lparr>class_name = ''Impl'', ctor_args = []\<rparr>]\<rparr>)))"
    by simp
  with c show ?thesis
    by (simp add: assign_factory_def assign_instance_def empty_state_def)
qed

text \<open>
  C10. When the closure given to \<^verbatim>\<open>Provide<T>\<close> returns a null pointer, \<^verbatim>\<open>Provide\<close>
  stores it as the instance of \<^verbatim>\<open>T\<close> beside the builder. In the resulting state, with
  whatever closures the program has and at any depth, \<^verbatim>\<open>Require<T*>()\<close> returns null
  and leaves the state as it is (so the same holds for every later call), and
  \<^verbatim>\<open>Require<T>()\<close> raises the error that names \<^verbatim>\<open>T\<close>.
\<close>

theorem C10_null_build_is_cached:
  assumes "closure_body prog i req s = Return None s'"
  shows "\<exists>s''. Provide_builder prog req T (Closure i) scope s = Return () s''
           \<and> map_of (m_instances (ctx s'')) T = Some \<lparr>Scope = scope, Handle = None\<rparr>
           \<and> map_of (m_factories (ctx s'')) T = Some \<lparr>Scope = scope, Builder = Closure i\<rparr>
           \<and> (\<forall>prog' n. Require_ptr prog' (Suc n) T s'' = Return None s'')
           \<and> (\<forall>prog' n. Require_ref (Require_ptr prog' (Suc n)) T s''
                 = Raise (runtime_error
                     (T @ '' is not constructible and not provided within the current context.'')))"
proof -
  let ?s = "assign_factory T \<lparr>Scope = scope, Builder = Closure i\<rparr>
              (assign_instance T \<lparr>Scope = scope, Handle = None\<rparr> s')"
  from assms have p: "Provide_builder prog req T (Closure i) scope s = Return () ?s"
    by (simp add: Provide_builder_def)
  have i: "map_of (m_instances (ctx ?s)) T = Some \<lparr>Scope = scope, Handle = None\<rparr>" by simp
  have f: "map_of (m_factories (ctx ?s)) T = Some \<lparr>Scope = scope, Builder = Closure i\<rparr>" by simp
  have r: "Require_ptr prog' (Suc n) T ?s = Return None ?s" for prog' n
    using Require_ptr_cached [OF i] by simp
  then have "Require_ref (Require_ptr prog' (Suc n)) T ?s
      = Raise (runtime_error
          (T @ '' is not constructible and not provided within the current context.''))" for prog' n
    by (simp add: Require_ref_def not_provided_def)
  with p i f r show ?thesis by blast
qed

theorem C10_witness:
  "closure_body (example LeftToRight) 0 (Require_ptr (example LeftToRight) 0) empty_state
     = Return None empty_state
   \<and> (\<exists>s''. Provide_builder (example LeftToRight) (Require_ptr (example LeftToRight) 0) ''I''
              (Closure 0) Singleton empty_state = Return () s''
         \<and> map_of (m_factories (ctx s'')) ''I'' = Some \<lparr>Scope = Singleton, Builder = Closure 0\<rparr>
         \<and> Require_ptr (example LeftToRight) 1 ''I'' s'' = Return None s''
         \<and> Require_ref (Require_ptr (example LeftToRight) 1) ''I'' s''
             = Raise (runtime_error
                 ''I is not constructible and not provided within the current context.''))"
proof -
  let ?p = "example LeftToRight"
  have c: "closure_body ?p 0 (Require_ptr ?p 0) empty_state = Return None empty_state"
    by simp
  from C10_null_build_is_cached [OF c, of "''I''" Singleton] obtain s'' where
    "Provide_builder ?p (Require_ptr ?p 0) ''I'' (Closure 0) Singleton empty_state = Return () s''"
    "map_of (m_factories (ctx s'')) ''I'' = Some \<lparr>Scope = Singleton, Builder = Closure 0\<rparr>"
    "\<forall>prog' n. Require_ptr prog' (Suc n) ''I'' s'' = Return None s''"
    "\<forall>prog' n. Require_ref (Require_ptr prog' (Suc n)) ''I'' s''
        = Raise (runtime_error
            (''I'' @ '' is not constructible and not provided within the current context.''))"
    by blast
  then have "Provide_builder ?p (Require_ptr ?p 0) ''I'' (Closure 0) Singleton empty_state = Return () s''
     \<and> map_of (m_factories (ctx s'')) ''I'' = Some \<lparr>Scope = Singleton, Builder = Closure 0\<rparr>
     \<and> Require_ptr ?p 1 ''I'' s'' = Return None s''
     \<and> Require_ref (Require_ptr ?p 1) ''I'' s''
         = Raise (runtime_error
             ''I is not constructible and not provided within the current context.'')"
    by (metis One_nat_def append_Cons append_Nil)
  with c show ?thesis by blast
qed


lemma Provide_builder_stores:
  "Provide_builder prog req T builder scope s = Return u s' \<Longrightarrow>
   \<exists>h. map_of (m_instances (ctx s')) T = Some \<lparr>Scope = scope, Handle = h\<rparr>"
  by (auto simp: Provide_builder_def and_then_Return)

text \<open>
  C1. \<^verbatim>\<open>Require<T*>()\<close> in a container with no instance of \<^verbatim>\<open>T\<close>. With a builder for
  \<^verbatim>\<open>T\<close> whose call in the current state returns a handle, it returns that handle and
  stores it as a \<^verbatim>\<open>Local\<close> instance, whatever the scope of the builder. With no builder
  and \<^verbatim>\<open>T\<close> constructible, it is \<^verbatim>\<open>Provide<T>()\<close> followed by one more \<^verbatim>\<open>Require<T*>()\<close>,
  and when \<^verbatim>\<open>Provide<T>()\<close> returns, that second call finds the instance just stored
  and returns it. With no builder and \<^verbatim>\<open>T\<close> not constructible, it returns null and
  changes nothing.
\<close>

theorem C1_Require_ptr_resolution:
  assumes "map_of (m_instances (ctx s)) T = None"
  shows "(map_of (m_factories (ctx s)) T = Some factory
          \<and> call prog (Require_ptr prog n) (Builder factory) s = Return handle s' \<longrightarrow>
            Require_ptr prog (Suc n) T s
              = Return handle (assign_instance T \<lparr>Scope = Local, Handle = handle\<rparr> s')
            \<and> map_of (m_instances (ctx (assign_instance T \<lparr>Scope = Local, Handle = handle\<rparr> s'))) T
                = Some \<lparr>Scope = Local, Handle = handle\<rparr>)
     \<and> (map_of (m_factories (ctx s)) T = None \<and> Constructible (class_of prog T) \<longrightarrow>
            Require_ptr prog (Suc (Suc n)) T s
              = and_then (Provide prog (Require_ptr prog (Suc n)) T Local s)
                  (\<lambda>_ s'. Require_ptr prog (Suc n) T s')
            \<and> (\<forall>s'. Provide prog (Require_ptr prog (Suc n)) T Local s = Return () s' \<longrightarrow>
                  (\<exists>h. map_of (m_instances (ctx s')) T = Some \<lparr>Scope = Local, Handle = h\<rparr>
                     \<and> Require_ptr prog (Suc (Suc n)) T s = Return h s')))
     \<and> (map_of (m_factories (ctx s)) T = None \<and> \<not> Constructible (class_of prog T) \<longrightarrow>
            Require_ptr prog (Suc n) T s = Return None s)"
proof (intro conjI impI)
  assume "map_of (m_factories (ctx s)) T = Some factory
          \<and> call prog (Require_ptr prog n) (Builder factory) s = Return handle s'"
  with assms show "Require_ptr prog (Suc n) T s
      = Return handle (assign_instance T \<lparr>Scope = Local, Handle = handle\<rparr> s')"
    by (simp add: Require_body_def)
next
  show "map_of (m_instances (ctx (assign_instance T \<lparr>Scope = Local, Handle = handle\<rparr> s'))) T
      = Some \<lparr>Scope = Local, Handle = handle\<rparr>"
    by simp
next
  assume a: "map_of (m_factories (ctx s)) T = None \<and> Constructible (class_of prog T)"
  with assms show eq: "Require_ptr prog (Suc (Suc n)) T s
      = and_then (Provide prog (Require_ptr prog (Suc n)) T Local s)
          (\<lambda>_ s'. Require_ptr prog (Suc n) T s')"
    unfolding Require_ptr.simps(2) [of prog "Suc n"]
    by (simp add: Require_body_def del: Require_ptr.simps)
  show "\<forall>s'. Provide prog (Require_ptr prog (Suc n)) T Local s = Return () s' \<longrightarrow>
          (\<exists>h. map_of (m_instances (ctx s')) T = Some \<lparr>Scope = Local, Handle = h\<rparr>
             \<and> Require_ptr prog (Suc (Suc n)) T s = Return h s')"
  proof (intro allI impI)
    fix s' assume p: "Provide prog (Require_ptr prog (Suc n)) T Local s = Return () s'"
    with a have "Provide_builder prog (Require_ptr prog (Suc n)) T (As T) Local s = Return () s'"
      by (simp add: Provide_def)
    from Provide_builder_stores [OF this] obtain h where
      h: "map_of (m_instances (ctx s')) T = Some \<lparr>Scope = Local, Handle = h\<rparr>" by blast
    from Require_ptr_cached [OF h] have "Require_ptr prog (Suc n) T s' = Return h s'" by simp
    with eq p h show "\<exists>h. map_of (m_instances (ctx s')) T = Some \<lparr>Scope = Local, Handle = h\<rparr>
             \<and> Require_ptr prog (Suc (Suc n)) T s = Return h s'"
      by simp
  qed
next
  assume "map_of (m_factories (ctx s)) T = None \<and> \<not> Constructible (class_of prog T)"
  with assms show "Require_ptr prog (Suc n) T s = Return None s"
    by (simp add: Require_body_def)
qed

theorem C1_witness:
  "map_of (m_instances (ctx orphan_factory)) ''I'' = None
   \<and> map_of (m_factories (ctx orphan_factory)) ''I'' = Some \<lparr>Scope = Singleton, Builder = Closure 1\<rparr>
   \<and> Require_ptr (example LeftToRight) 1 ''I'' orphan_factory
       = Return (Some 0)
           \<lparr>ctx = \<lparr>m_instances = [(''I'', \<lparr>Scope = Local, Handle = Some 0\<rparr>)],
                   m_factories = [(''I'', \<lparr>Scope = Singleton, Builder = Closure 1\<rparr>)]\<rparr>,
            objects = [\<lparr>class_name = ''Impl'', ctor_args = []\<rparr>], deleted = []\<rparr>
   \<and> map_of (m_instances (ctx empty_state)) ''B'' = None
   \<and> map_of (m_factories (ctx empty_state)) ''B'' = None
   \<and> Constructible (class_of (example LeftToRight) ''B'')
   \<and> Require_ptr (example LeftToRight) 2 ''B'' empty_state
       = Return (Some 0)
           \<lparr>ctx = \<lparr>m_instances = [(''B'', \<lparr>Scope = Local, Handle = Some 0\<rparr>)],
                   m_factories = [(''B'', \<lparr>Scope = Local, Builder = As ''B''\<rparr>)]\<rparr>,
            objects = [\<lparr>class_name = ''B'', ctor_args = []\<rparr>], deleted = []\<rparr>
   \<and> \<not> Constructible (class_of (example LeftToRight) ''I'')
   \<and> Require_ptr (example LeftToRight) 1 ''I'' empty_state = Return None empty_state"
proof -
  let ?p = "example LeftToRight"
  let ?impl = "orphan_factory\<lparr>objects := [\<lparr>class_name = ''Impl'', ctor_args = []\<rparr>]\<rparr>"
  have i: "map_of (m_instances (ctx orphan_factory)) ''I'' = None"
    and f: "map_of (m_factories (ctx orphan_factory)) ''I'' = Some \<lparr>Scope = Singleton, Builder = Closure 1\<rparr>"
    and c: "call ?p (Require_ptr ?p 0) (Builder \<lparr>Scope = Singleton, Builder = Closure 1\<rparr>) orphan_factory
              = Return (Some 0) ?impl"
    by (simp_all add: orphan_factory_def make_unique_def)
  from C1_Require_ptr_resolution [OF i, of "\<lparr>Scope = Singleton, Builder = Closure 1\<rparr>" ?p 0 "Some 0" ?impl] f c
  have "Require_ptr ?p (Suc 0) ''I'' orphan_factory
      = Return (Some 0) (assign_instance ''I'' \<lparr>Scope = Local, Handle = Some 0\<rparr> ?impl)"
    by blast
  then have 1: "Require_ptr ?p 1 ''I'' orphan_factory
       = Return (Some 0)
           \<lparr>ctx = \<lparr>m_instances = [(''I'', \<lparr>Scope = Local, Handle = Some 0\<rparr>)],
                   m_factories = [(''I'', \<lparr>Scope = Singleton, Builder = Closure 1\<rparr>)]\<rparr>,
            objects = [\<lparr>class_name = ''Impl'', ctor_args = []\<rparr>], deleted = []\<rparr>"
    by (simp add: assign_instance_def orphan_factory_def)
  let ?b = "\<lparr>ctx = \<lparr>m_instances = [(''B'', \<lparr>Scope = Local, Handle = Some 0\<rparr>)],
                   m_factories = [(''B'', \<lparr>Scope = Local, Builder = As ''B''\<rparr>)]\<rparr>,
            objects = [\<lparr>class_name = ''B'', ctor_args = []\<rparr>], deleted = []\<rparr>"
  have e: "map_of (m_instances (ctx empty_state)) ''B'' = None"
    "map_of (m_factories (ctx empty_state)) ''B'' = None"
    "map_of (m_instances (ctx empty_state)) ''I'' = None"
    "map_of (m_factories (ctx empty_state)) ''I'' = None"
    by (simp_all add: empty_state_def)
  have k: "Constructible (class_of ?p ''B'')" "\<not> Constructible (class_of ?p ''I'')" by simp_all
  have pb: "Provide ?p (Require_ptr ?p (Suc 0)) ''B'' Local empty_state = Return () ?b"
    by (simp add: Provide_def Provide_builder_def BuildParameters_def make_unique_def
        assign_instance_def assign_factory_def empty_state_def)
  from C1_Require_ptr_resolution [OF e(1), of "\<lparr>Scope = Local, Builder = As []\<rparr>" ?p 0] e(2) k(1) pb
  obtain h where "map_of (m_instances (ctx ?b)) ''B'' = Some \<lparr>Scope = Local, Handle = h\<rparr>"
    "Require_ptr ?p (Suc (Suc 0)) ''B'' empty_state = Return h ?b"
    by blast
  then have 2: "Require_ptr ?p 2 ''B'' empty_state = Return (Some 0) ?b"
    by (simp add: numeral_2_eq_2)
  from C1_Require_ptr_resolution [OF e(3), of "\<lparr>Scope = Local, Builder = As []\<rparr>" ?p 0] e(4) k(2)
  have 3: "Require_ptr ?p 1 ''I'' empty_state = Return None empty_state"
    by simp
  from i f 1 e(1,2) k 2 3 show ?thesis by simp
qed


lemma Require_ptr_again:
  "Require_ptr prog n T s = Return h s' \<Longrightarrow> Require_ptr prog (Suc m) T s' = Return h s'"
proof (induction n arbitrary: s)
  case 0
  then show ?case by simp
next
  case (Suc n)
  show ?case
  proof (cases "map_of (m_instances (ctx s)) T")
    case (Some inst)
    with Suc.prems have "h = Handle inst" "s' = s" by (simp_all add: Require_body_def)
    with Some show ?thesis by (simp add: Require_body_def)
  next
    case None
    show ?thesis
    proof (cases "map_of (m_factories (ctx s)) T")
      case (Some factory)
      with None Suc.prems obtain s1 where
        "s' = assign_instance T \<lparr>Scope = Local, Handle = h\<rparr> s1"
        by (auto simp: Require_body_def and_then_Return)
      then have "map_of (m_instances (ctx s')) T = Some \<lparr>Scope = Local, Handle = h\<rparr>" by simp
      from Require_ptr_cached [OF this] show ?thesis by simp
    next
      case nf: None
      show ?thesis
      proof (cases "Constructible (class_of prog T)")
        case True
        with None nf Suc.prems obtain s1 where "Require_ptr prog n T s1 = Return h s'"
          by (auto simp: Require_body_def and_then_Return)
        then show ?thesis by (rule Suc.IH)
      next
        case False
        with None nf Suc.prems have "h = None" "s' = s" by (simp_all add: Require_body_def)
        with None nf False show ?thesis by (simp add: Require_body_def)
      qed
    qed
  qed
qed

text \<open>
  C8. In a container with an instance of \<^verbatim>\<open>T\<close>, \<^verbatim>\<open>Require<T*>()\<close> returns its handle and
  leaves the state as it is, whatever the program's builders are. And after a call of
  \<^verbatim>\<open>Require<T*>()\<close> has returned, every further call returns the same handle and
  changes nothing.
\<close>

theorem C8_cached_instance_is_stable:
  "(map_of (m_instances (ctx s)) T = Some inst \<longrightarrow>
      (\<forall>prog n. Require_ptr prog (Suc n) T s = Return (Handle inst) s))
   \<and> (Require_ptr prog n T s = Return h s' \<longrightarrow>
        (\<forall>m. Require_ptr prog (Suc m) T s' = Return h s'))"
  using Require_ptr_cached Require_ptr_again by blast

theorem C8_witness:
  "Require_ptr (example LeftToRight) 3 ''A'' empty_state
     = Return (Some 2)
         \<lparr>ctx = \<lparr>m_instances = [(''B'', \<lparr>Scope = Local, Handle = Some 0\<rparr>),
                                (''C'', \<lparr>Scope = Local, Handle = Some 1\<rparr>),
                                (''A'', \<lparr>Scope = Local, Handle = Some 2\<rparr>)],
                 m_factories = [(''B'', \<lparr>Scope = Local, Builder = As ''B''\<rparr>),
                                (''C'', \<lparr>Scope = Local, Builder = As ''C''\<rparr>),
                                (''A'', \<lparr>Scope = Local, Builder = As ''A''\<rparr>)]\<rparr>,
          objects = [\<lparr>class_name = ''B'', ctor_args = []\<rparr>,
                     \<lparr>class_name = ''C'', ctor_args = []\<rparr>,
                     \<lparr>class_name = ''A'', ctor_args = [Some 0, Some 1]\<rparr>],
          deleted = []\<rparr>
   \<and> (\<exists>s'. Require_ptr (example LeftToRight) 3 ''A'' empty_state = Return (Some 2) s'
         \<and> Require_ptr (example LeftToRight) 1 ''A'' s' = Return (Some 2) s'
         \<and> Require_ptr (example RightToLeft) 1 ''B'' s' = Return (Some 0) s')"
proof -
  let ?p = "example LeftToRight"
  let ?s = "\<lparr>ctx = \<lparr>m_instances = [(''B'', \<lparr>Scope = Local, Handle = Some 0\<rparr>),
                                (''C'', \<lparr>Scope = Local, Handle = Some 1\<rparr>),
                                (''A'', \<lparr>Scope = Local, Handle = Some 2\<rparr>)],
                 m_factories = [(''B'', \<lparr>Scope = Local, Builder = As ''B''\<rparr>),
                                (''C'', \<lparr>Scope = Local, Builder = As ''C''\<rparr>),
                                (''A'', \<lparr>Scope = Local, Builder = As ''A''\<rparr>)]\<rparr>,
          objects = [\<lparr>class_name = ''B'', ctor_args = []\<rparr>,
                     \<lparr>class_name = ''C'', ctor_args = []\<rparr>,
                     \<lparr>class_name = ''A'', ctor_args = [Some 0, Some 1]\<rparr>],
          deleted = []\<rparr>"
  have r: "Require_ptr ?p 3 ''A'' empty_state = Return (Some 2) ?s"
    by (simp add: numeral_3_eq_3 Require_body_def Provide_def Provide_builder_def
        BuildParameters_def Require_ref_def make_unique_def assign_instance_def assign_factory_def
        empty_state_def)
  have b: "map_of (m_instances (ctx ?s)) ''B'' = Some \<lparr>Scope = Local, Handle = Some 0\<rparr>"
    by simp
  from C8_cached_instance_is_stable [where s = ?s and T = "''B''"
      and inst = "\<lparr>Scope = Local, Handle = Some 0\<rparr>"] b
  have 1: "Require_ptr (example RightToLeft) (Suc 0) ''B'' ?s = Return (Some 0) ?s"
    by simp
  from C8_cached_instance_is_stable [where s = empty_state and T = "''A''" and prog = ?p
      and n = 3 and h = "Some 2" and s' = ?s] r
  have "Require_ptr ?p (Suc 0) ''A'' ?s = Return (Some 2) ?s"
    by blast
  with 1 have "Require_ptr ?p 1 ''A'' ?s = Return (Some 2) ?s"
    "Require_ptr (example RightToLeft) 1 ''B'' ?s = Return (Some 0) ?s"
    by simp_all
  with r show ?thesis by simp
qed

subsection \<open>Errors\<close>

lemma Require_ptr_Raise_from_call:
  "Require_ptr prog n T s = Raise e \<Longrightarrow>
   \<exists>m<n. \<exists>b s0. call prog (Require_ptr prog m) b s0 = Raise e"
proof (induction n arbitrary: s)
  case 0
  then show ?case by simp
next
  case (Suc n)
  show ?case
  proof (cases "map_of (m_instances (ctx s)) T")
    case (Some inst)
    with Suc.prems show ?thesis by (simp add: Require_body_def)
  next
    case None
    show ?thesis
    proof (cases "map_of (m_factories (ctx s)) T")
      case (Some factory)
      with None Suc.prems have "call prog (Require_ptr prog n) (Builder factory) s = Raise e"
        by (auto simp: Require_body_def and_then_Raise)
      then show ?thesis by blast
    next
      case nf: None
      show ?thesis
      proof (cases "Constructible (class_of prog T)")
        case True
        with None nf Suc.prems
        have "Provide prog (Require_ptr prog n) T Local s = Raise e
              \<or> (\<exists>s1. Require_ptr prog n T s1 = Raise e)"
          by (auto simp: Require_body_def and_then_Raise)
        then show ?thesis
        proof
          assume "Provide prog (Require_ptr prog n) T Local s = Raise e"
          with True have "call prog (Require_ptr prog n) (As T) s = Raise e"
            by (auto simp: Provide_def Provide_builder_def and_then_Raise)
          then show ?thesis by blast
        next
          assume "\<exists>s1. Require_ptr prog n T s1 = Raise e"
          then obtain s1 where "Require_ptr prog n T s1 = Raise e" ..
          from Suc.IH [OF this] obtain m b s0 where "m < n"
            "call prog (Require_ptr prog m) b s0 = Raise e" by blast
          then have "m < Suc n" by simp
          with \<open>call prog (Require_ptr prog m) b s0 = Raise e\<close> show ?thesis by blast
        qed
      next
        case False
        with None nf Suc.prems show ?thesis by (simp add: Require_body_def)
      qed
    qed
  qed
qed

text \<open>
  C5, as the code has it. When \<^verbatim>\<open>Require<T*>()\<close> returns null, \<^verbatim>\<open>Require<T>()\<close> raises the
  error whose message starts with the name of \<^verbatim>\<open>T\<close>; when it returns an instance,
  \<^verbatim>\<open>Require<T>()\<close> returns that instance in the same state; when it does not return,
  neither does \<^verbatim>\<open>Require<T>()\<close>. The nullable form has no error of its own, but it is
  not free of errors: when it raises, the error was raised by the call of a builder
  at a smaller depth, and \<^verbatim>\<open>Require<T>()\<close> raises the same error.
\<close>

theorem C5_reference_form_follows_nullable:
  "(Require_ptr prog n T s = Return None s' \<longrightarrow>
      Require_ref (Require_ptr prog n) T s
        = Raise (runtime_error
            (T @ '' is not constructible and not provided within the current context.'')))
   \<and> (Require_ptr prog n T s = Return (Some a) s' \<longrightarrow>
        Require_ref (Require_ptr prog n) T s = Return a s')
   \<and> (Require_ptr prog n T s = Raise e \<longrightarrow>
        Require_ref (Require_ptr prog n) T s = Raise e
        \<and> (\<exists>m<n. \<exists>b s0. call prog (Require_ptr prog m) b s0 = Raise e))
   \<and> (Require_ptr prog n T s = None \<longrightarrow> Require_ref (Require_ptr prog n) T s = None)"
  using Require_ptr_Raise_from_call [of prog n T s e]
  by (simp add: Require_ref_def not_provided_def)

text \<open>
  C5 as stated fails: \<^verbatim>\<open>E\<close> is constructible from a \<^verbatim>\<open>J&\<close>; \<^verbatim>\<open>J\<close> is a concrete class with
  the constructors \<^verbatim>\<open>J(P&)\<close> and \<^verbatim>\<open>J(Q&)\<close>, so no arity selects one constructor and \<^verbatim>\<open>J\<close> is
  not constructible, and \<^verbatim>\<open>J\<close> is not provided. \<^verbatim>\<open>Require<E*>()\<close> provides \<^verbatim>\<open>E\<close>, whose
  builder resolves \<^verbatim>\<open>J\<close> in the reference form; the error of that call leaves
  \<^verbatim>\<open>Require<E*>()\<close>, and names \<^verbatim>\<open>J\<close>.
\<close>

theorem C5_nullable_form_raises:
  "Require_ptr (example LeftToRight) 2 ''E'' empty_state
     = Raise (runtime_error ''J is not constructible and not provided within the current context.'')
   \<and> Require_ref (Require_ptr (example LeftToRight) 2) ''E'' empty_state
     = Raise (runtime_error ''J is not constructible and not provided within the current context.'')
   \<and> Constructible (class_of (example LeftToRight) ''E'')
   \<and> As_compiles (class_of (example LeftToRight)) ''E''
   \<and> \<not> Constructible (class_of (example LeftToRight) ''J'')
   \<and> \<not> is_abstract (class_of (example LeftToRight) ''J'')"
  by (simp add: numeral_2_eq_2 Require_body_def Provide_def Provide_builder_def
      BuildParameters_def Require_ref_def not_provided_def empty_state_def As_compiles_def)
    (simp add: example_types_def concrete_def)

theorem C5_witness:
  "Require_ptr (example LeftToRight) 1 ''I'' empty_state = Return None empty_state
   \<and> Require_ref (Require_ptr (example LeftToRight) 1) ''I'' empty_state
       = Raise (runtime_error ''I is not constructible and not provided within the current context.'')
   \<and> (\<exists>s'. Require_ptr (example LeftToRight) 2 ''B'' empty_state = Return (Some 0) s'
         \<and> Require_ref (Require_ptr (example LeftToRight) 2) ''B'' empty_state = Return 0 s')
   \<and> Require_ptr (example LeftToRight) 2 ''E'' empty_state
       = Raise (runtime_error ''J is not constructible and not provided within the current context.'')
   \<and> Require_ref (Require_ptr (example LeftToRight) 2) ''E'' empty_state
       = Raise (runtime_error ''J is not constructible and not provided within the current context.'')
   \<and> Require_ptr (example LeftToRight) 0 ''B'' empty_state = None
   \<and> Require_ref (Require_ptr (example LeftToRight) 0) ''B'' empty_state = None"
proof -
  let ?p = "example LeftToRight"
  let ?b = "\<lparr>ctx = \<lparr>m_instances = [(''B'', \<lparr>Scope = Local, Handle = Some 0\<rparr>)],
                   m_factories = [(''B'', \<lparr>Scope = Local, Builder = As ''B''\<rparr>)]\<rparr>,
            objects = [\<lparr>class_name = ''B'', ctor_args = []\<rparr>], deleted = []\<rparr>"
  have i: "Require_ptr ?p 1 ''I'' empty_state = Return None empty_state"
    by (simp add: Require_body_def empty_state_def)
  have b: "Require_ptr ?p 2 ''B'' empty_state = Return (Some 0) ?b"
    by (simp add: numeral_2_eq_2 Require_body_def Provide_def Provide_builder_def
        BuildParameters_def make_unique_def assign_instance_def assign_factory_def empty_state_def)
  have d: "Require_ptr ?p 2 ''E'' empty_state
       = Raise (runtime_error ''J is not constructible and not provided within the current context.'')"
    by (simp add: numeral_2_eq_2 Require_body_def Provide_def Provide_builder_def
      BuildParameters_def Require_ref_def not_provided_def empty_state_def)
  have z: "Require_ptr ?p 0 ''B'' empty_state = None" by simp
  from C5_reference_form_follows_nullable [of ?p 1 "''I''" empty_state empty_state] i
  have 1: "Require_ref (Require_ptr ?p 1) ''I'' empty_state
       = Raise (runtime_error ''I is not constructible and not provided within the current context.'')"
    by simp
  from C5_reference_form_follows_nullable [of ?p 2 "''B''" empty_state ?b 0] b
  have 2: "Require_ref (Require_ptr ?p 2) ''B'' empty_state = Return 0 ?b"
    by blast
  from C5_reference_form_follows_nullable [of ?p 2 "''E''" empty_state _ _
      "runtime_error ''J is not constructible and not provided within the current context.''"] d
  have 3: "Require_ref (Require_ptr ?p 2) ''E'' empty_state
       = Raise (runtime_error ''J is not constructible and not provided within the current context.'')"
    by blast
  from C5_reference_form_follows_nullable [of ?p 0 "''B''" empty_state] z
  have 4: "Require_ref (Require_ptr ?p 0) ''B'' empty_state = None"
    by blast
  from i 1 b 2 d 3 z 4 show ?thesis by blast
qed

subsection \<open>The order of resolution\<close>

lemma one_by_one_chain:
  "one_by_one req ps s = Return as s' \<longleftrightarrow>
     (\<exists>ss. length ss = Suc (length ps) \<and> ss ! 0 = s \<and> ss ! length ps = s'
         \<and> length as = length ps
         \<and> (\<forall>k<length ps. BuildParameter req (ps ! k) (ss ! k) = Return (as ! k) (ss ! Suc k)))"
proof (induction ps arbitrary: s as)
  case Nil
  show ?case
  proof
    assume "one_by_one req [] s = Return as s'"
    then have "as = []" "s' = s" by simp_all
    then have "length [s] = Suc (length ([]::param list)) \<and> [s] ! 0 = s \<and> [s] ! length ([]::param list) = s'
         \<and> length as = length ([]::param list)
         \<and> (\<forall>k<length ([]::param list). BuildParameter req ([] ! k) ([s] ! k) = Return (as ! k) ([s] ! Suc k))"
      by simp
    then show "\<exists>ss. length ss = Suc (length ([]::param list)) \<and> ss ! 0 = s \<and> ss ! length ([]::param list) = s'
         \<and> length as = length ([]::param list)
         \<and> (\<forall>k<length ([]::param list). BuildParameter req ([] ! k) (ss ! k) = Return (as ! k) (ss ! Suc k))"
      by (rule exI)
  next
    assume "\<exists>ss. length ss = Suc (length ([]::param list)) \<and> ss ! 0 = s \<and> ss ! length ([]::param list) = s'
         \<and> length as = length ([]::param list)
         \<and> (\<forall>k<length ([]::param list). BuildParameter req ([] ! k) (ss ! k) = Return (as ! k) (ss ! Suc k))"
    then show "one_by_one req [] s = Return as s'" by auto
  qed
next
  case (Cons p ps)
  show ?case
  proof
    assume "one_by_one req (p # ps) s = Return as s'"
    then obtain a s1 as' where a: "BuildParameter req p s = Return a s1"
      and r: "one_by_one req ps s1 = Return as' s'" and as: "as = a # as'"
      by (auto simp: and_then_Return)
    from r Cons.IH [of s1 as'] obtain ss where ss: "length ss = Suc (length ps)" "ss ! 0 = s1"
      "ss ! length ps = s'" "length as' = length ps"
      "\<forall>k<length ps. BuildParameter req (ps ! k) (ss ! k) = Return (as' ! k) (ss ! Suc k)"
      by blast
    have "\<forall>k<length (p # ps). BuildParameter req ((p # ps) ! k) ((s # ss) ! k)
            = Return (as ! k) ((s # ss) ! Suc k)"
    proof (intro allI impI)
      fix k assume "k < length (p # ps)"
      then show "BuildParameter req ((p # ps) ! k) ((s # ss) ! k) = Return (as ! k) ((s # ss) ! Suc k)"
        using a ss as by (cases k) simp_all
    qed
    with ss as have "length (s # ss) = Suc (length (p # ps)) \<and> (s # ss) ! 0 = s
         \<and> (s # ss) ! length (p # ps) = s' \<and> length as = length (p # ps)
         \<and> (\<forall>k<length (p # ps). BuildParameter req ((p # ps) ! k) ((s # ss) ! k)
               = Return (as ! k) ((s # ss) ! Suc k))"
      by simp
    then show "\<exists>ss. length ss = Suc (length (p # ps)) \<and> ss ! 0 = s \<and> ss ! length (p # ps) = s'
         \<and> length as = length (p # ps)
         \<and> (\<forall>k<length (p # ps). BuildParameter req ((p # ps) ! k) (ss ! k) = Return (as ! k) (ss ! Suc k))"
      by (rule exI)
  next
    assume "\<exists>ss. length ss = Suc (length (p # ps)) \<and> ss ! 0 = s \<and> ss ! length (p # ps) = s'
         \<and> length as = length (p # ps)
         \<and> (\<forall>k<length (p # ps). BuildParameter req ((p # ps) ! k) (ss ! k) = Return (as ! k) (ss ! Suc k))"
    then obtain ss where ss: "length ss = Suc (Suc (length ps))" "ss ! 0 = s"
      "ss ! Suc (length ps) = s'" "length as = Suc (length ps)"
      and ch: "\<forall>k<Suc (length ps). BuildParameter req ((p # ps) ! k) (ss ! k) = Return (as ! k) (ss ! Suc k)"
      by auto
    from ss(1) obtain t ss' where t: "ss = t # ss'" "length ss' = Suc (length ps)"
      by (cases ss) auto
    from ss(4) obtain a as' where as: "as = a # as'" "length as' = length ps"
      by (cases as) auto
    from ch have "BuildParameter req ((p # ps) ! 0) (ss ! 0) = Return (as ! 0) (ss ! Suc 0)"
      by blast
    with ss t as have a: "BuildParameter req p s = Return a (ss' ! 0)" by simp
    have "\<forall>k<length ps. BuildParameter req (ps ! k) (ss' ! k) = Return (as' ! k) (ss' ! Suc k)"
    proof (intro allI impI)
      fix k assume "k < length ps"
      then have "Suc k < Suc (length ps)" by simp
      with ch have "BuildParameter req ((p # ps) ! Suc k) (ss ! Suc k) = Return (as ! Suc k) (ss ! Suc (Suc k))"
        by blast
      with t as show "BuildParameter req (ps ! k) (ss' ! k) = Return (as' ! k) (ss' ! Suc k)"
        by simp
    qed
    with t as ss have "\<exists>ss. length ss = Suc (length ps) \<and> ss ! 0 = ss' ! 0 \<and> ss ! length ps = s'
         \<and> length as' = length ps
         \<and> (\<forall>k<length ps. BuildParameter req (ps ! k) (ss ! k) = Return (as' ! k) (ss ! Suc k))"
      by (intro exI [of _ ss']) simp
    with Cons.IH [of "ss' ! 0" as'] have "one_by_one req ps (ss' ! 0) = Return as' s'"
      by blast
    with a as show "one_by_one req (p # ps) s = Return as s'" by simp
  qed
qed

lemma BuildParameters_chain:
  "BuildParameters req ord ps s = Return as s' \<longleftrightarrow>
     (\<exists>ss. length ss = Suc (length ps) \<and> ss ! 0 = s \<and> ss ! length ps = s'
         \<and> length as = length ps
         \<and> (\<forall>k<length ps. BuildParameter req (ps ! evaluated ord (length ps) k) (ss ! k)
               = Return (as ! evaluated ord (length ps) k) (ss ! Suc k)))"
proof (cases ord)
  case LeftToRight
  then show ?thesis
    by (simp add: BuildParameters_def evaluated_def one_by_one_chain)
next
  case RightToLeft
  have "BuildParameters req ord ps s = Return as s' \<longleftrightarrow> one_by_one req (rev ps) s = Return (rev as) s'"
    using RightToLeft by (auto simp: BuildParameters_def and_then_Return)
  also have "\<dots> \<longleftrightarrow> (\<exists>ss. length ss = Suc (length ps) \<and> ss ! 0 = s \<and> ss ! length ps = s'
         \<and> length as = length ps
         \<and> (\<forall>k<length ps. BuildParameter req (rev ps ! k) (ss ! k) = Return (rev as ! k) (ss ! Suc k)))"
    by (simp add: one_by_one_chain)
  also have "\<dots> \<longleftrightarrow> (\<exists>ss. length ss = Suc (length ps) \<and> ss ! 0 = s \<and> ss ! length ps = s'
         \<and> length as = length ps
         \<and> (\<forall>k<length ps. BuildParameter req (ps ! (length ps - Suc k)) (ss ! k)
               = Return (as ! (length ps - Suc k)) (ss ! Suc k)))"
    by (rule ex_cong1) (auto simp: rev_nth)
  finally show ?thesis using RightToLeft by (simp add: evaluated_def)
qed


text \<open>
  C9, as the code has it. The closure of \<^verbatim>\<open>As<T>()\<close> returns a handle exactly when it
  compiles and the parameters of the deduced signature can be resolved one at a time, each resolution
  starting in the state in which the one before it ended (so with everything that one
  built and cached), followed by the construction of \<^verbatim>\<open>T\<close> from the results in declared
  order. The \<open>k\<close>-th resolution is that of the parameter at position \<open>k\<close> when the
  compiler evaluates function arguments from left to right, and of the parameter at
  position \<open>n - 1 - k\<close> when it evaluates them from right to left.
\<close>

theorem C9_parameters_resolved_one_at_a_time:
  "(call prog req (As T) s = Return h s'' \<longleftrightarrow>
      (\<exists>ps as ss. ConstructorDescriptor (class_of prog) T = Some ps
         \<and> constructs (class_of prog T) ps
         \<and> length ss = Suc (length ps) \<and> ss ! 0 = s \<and> length as = length ps
         \<and> (\<forall>k<length ps.
               BuildParameter req (ps ! evaluated (arg_order prog) (length ps) k) (ss ! k)
                 = Return (as ! evaluated (arg_order prog) (length ps) k) (ss ! Suc k))
         \<and> make_unique T as (ss ! length ps) = Return h s''))
   \<and> evaluated LeftToRight n k = k
   \<and> evaluated RightToLeft n k = n - Suc k"
proof (intro conjI)
  show "call prog req (As T) s = Return h s'' \<longleftrightarrow>
      (\<exists>ps as ss. ConstructorDescriptor (class_of prog) T = Some ps
         \<and> constructs (class_of prog T) ps
         \<and> length ss = Suc (length ps) \<and> ss ! 0 = s \<and> length as = length ps
         \<and> (\<forall>k<length ps.
               BuildParameter req (ps ! evaluated (arg_order prog) (length ps) k) (ss ! k)
                 = Return (as ! evaluated (arg_order prog) (length ps) k) (ss ! Suc k))
         \<and> make_unique T as (ss ! length ps) = Return h s'')"
  proof (cases "ConstructorDescriptor (class_of prog) T")
    case None
    then show ?thesis by simp
  next
    case (Some ps)
    show ?thesis
    proof (cases "constructs (class_of prog T) ps")
      case False
      with Some show ?thesis by simp
    next
      case True
      have "call prog req (As T) s = Return h s'' \<longleftrightarrow>
          (\<exists>as s'. BuildParameters req (arg_order prog) ps s = Return as s'
                    \<and> make_unique T as s' = Return h s'')"
        using Some True by (simp add: and_then_Return)
      also have "\<dots> \<longleftrightarrow> (\<exists>as ss. length ss = Suc (length ps) \<and> ss ! 0 = s \<and> length as = length ps
           \<and> (\<forall>k<length ps.
                 BuildParameter req (ps ! evaluated (arg_order prog) (length ps) k) (ss ! k)
                   = Return (as ! evaluated (arg_order prog) (length ps) k) (ss ! Suc k))
           \<and> make_unique T as (ss ! length ps) = Return h s'')"
        unfolding BuildParameters_chain by blast
      finally show ?thesis using Some True by simp
    qed
  qed
qed (simp_all add: evaluated_def)

text \<open>
  C9 as stated fails: for \<^verbatim>\<open>A(B&, C&)\<close> under right-to-left evaluation of arguments,
  \<^verbatim>\<open>C\<close> is resolved, built and cached before \<^verbatim>\<open>B\<close>.
\<close>

theorem C9_right_to_left_compiler:
  "call (example RightToLeft) (Require_ptr (example RightToLeft) 2) (As ''A'') empty_state
     = Return (Some 2)
         \<lparr>ctx = \<lparr>m_instances = [(''C'', \<lparr>Scope = Local, Handle = Some 0\<rparr>),
                                (''B'', \<lparr>Scope = Local, Handle = Some 1\<rparr>)],
                 m_factories = [(''C'', \<lparr>Scope = Local, Builder = As ''C''\<rparr>),
                                (''B'', \<lparr>Scope = Local, Builder = As ''B''\<rparr>)]\<rparr>,
          objects = [\<lparr>class_name = ''C'', ctor_args = []\<rparr>,
                     \<lparr>class_name = ''B'', ctor_args = []\<rparr>,
                     \<lparr>class_name = ''A'', ctor_args = [Some 1, Some 0]\<rparr>],
          deleted = []\<rparr>
   \<and> ConstructorDescriptor (class_of (example RightToLeft)) ''A'' = Some [Ref ''B'', Ref ''C'']"
  by (simp add: numeral_2_eq_2 Require_body_def Provide_def Provide_builder_def
      BuildParameters_def Require_ref_def make_unique_def assign_instance_def assign_factory_def
      empty_state_def)

theorem C9_witness:
  "call (example LeftToRight) (Require_ptr (example LeftToRight) 2) (As ''A'') empty_state
     = Return (Some 2)
         \<lparr>ctx = \<lparr>m_instances = [(''B'', \<lparr>Scope = Local, Handle = Some 0\<rparr>),
                                (''C'', \<lparr>Scope = Local, Handle = Some 1\<rparr>)],
                 m_factories = [(''B'', \<lparr>Scope = Local, Builder = As ''B''\<rparr>),
                                (''C'', \<lparr>Scope = Local, Builder = As ''C''\<rparr>)]\<rparr>,
          objects = [\<lparr>class_name = ''B'', ctor_args = []\<rparr>,
                     \<lparr>class_name = ''C'', ctor_args = []\<rparr>,
                     \<lparr>class_name = ''A'', ctor_args = [Some 0, Some 1]\<rparr>],
          deleted = []\<rparr>
   \<and> (\<exists>s1 s2 a0 a1.
         BuildParameter (Require_ptr (example LeftToRight) 2) (Ref ''B'') empty_state = Return a0 s1
         \<and> BuildParameter (Require_ptr (example LeftToRight) 2) (Ref ''C'') s1 = Return a1 s2
         \<and> make_unique ''A'' [a0, a1] s2
             = call (example LeftToRight) (Require_ptr (example LeftToRight) 2) (As ''A'') empty_state)"
proof -
  let ?p = "example LeftToRight"
  let ?s = "\<lparr>ctx = \<lparr>m_instances = [(''B'', \<lparr>Scope = Local, Handle = Some 0\<rparr>),
                                (''C'', \<lparr>Scope = Local, Handle = Some 1\<rparr>)],
                 m_factories = [(''B'', \<lparr>Scope = Local, Builder = As ''B''\<rparr>),
                                (''C'', \<lparr>Scope = Local, Builder = As ''C''\<rparr>)]\<rparr>,
          objects = [\<lparr>class_name = ''B'', ctor_args = []\<rparr>,
                     \<lparr>class_name = ''C'', ctor_args = []\<rparr>,
                     \<lparr>class_name = ''A'', ctor_args = [Some 0, Some 1]\<rparr>],
          deleted = []\<rparr>"
  have c: "call ?p (Require_ptr ?p 2) (As ''A'') empty_state = Return (Some 2) ?s"
    by (simp add: numeral_2_eq_2 Require_body_def Provide_def Provide_builder_def
      BuildParameters_def Require_ref_def make_unique_def assign_instance_def assign_factory_def
      empty_state_def)
  from C9_parameters_resolved_one_at_a_time [of ?p "Require_ptr ?p 2" "''A''" empty_state "Some 2" ?s] c
  obtain ps as ss where d: "ConstructorDescriptor (class_of ?p) ''A'' = Some ps"
    and k: "constructs (class_of ?p ''A'') ps"
    and l: "length ss = Suc (length ps)" "ss ! 0 = empty_state" "length as = length ps"
    and ch: "\<forall>k<length ps.
               BuildParameter (Require_ptr ?p 2) (ps ! evaluated (arg_order ?p) (length ps) k) (ss ! k)
                 = Return (as ! evaluated (arg_order ?p) (length ps) k) (ss ! Suc k)"
    and m: "make_unique ''A'' as (ss ! length ps) = Return (Some 2) ?s"
    by blast
  from d have ps: "ps = [Ref ''B'', Ref ''C'']" by simp
  with l obtain a0 a1 where as: "as = [a0, a1]"
    by (cases as; cases "tl as") auto
  from ps have "0 < length ps" "1 < length ps" by simp_all
  with ch have "BuildParameter (Require_ptr ?p 2) (ps ! evaluated (arg_order ?p) (length ps) 0) (ss ! 0)
                 = Return (as ! evaluated (arg_order ?p) (length ps) 0) (ss ! Suc 0)"
    "BuildParameter (Require_ptr ?p 2) (ps ! evaluated (arg_order ?p) (length ps) 1) (ss ! 1)
                 = Return (as ! evaluated (arg_order ?p) (length ps) 1) (ss ! Suc 1)"
    by blast+
  with ps as l have "BuildParameter (Require_ptr ?p 2) (Ref ''B'') empty_state = Return a0 (ss ! 1)"
    "BuildParameter (Require_ptr ?p 2) (Ref ''C'') (ss ! 1) = Return a1 (ss ! 2)"
    by (simp_all add: evaluated_def numeral_2_eq_2 del: BuildParameter.simps)
  moreover from m ps as have "make_unique ''A'' [a0, a1] (ss ! 2) = Return (Some 2) ?s"
    by (simp add: numeral_2_eq_2)
  then have "make_unique ''A'' [a0, a1] (ss ! 2)
      = call ?p (Require_ptr ?p 2) (As ''A'') empty_state"
    using c by (rule trans [OF _ sym])
  ultimately show ?thesis using c by blast
qed

subsection \<open>Scopes\<close>

lemma clone_into_map_of:
  "distinct (map fst other) \<Longrightarrow>
   map_of (clone_into Clone other m) k =
     (case map_of other k of
        None \<Rightarrow> map_of m k
      | Some e \<Rightarrow> (case Clone e of None \<Rightarrow> map_of m k | Some c \<Rightarrow> Some c))"
proof (induction other arbitrary: m)
  case Nil
  then show ?case by (simp add: clone_into_def)
next
  case (Cons x other)
  obtain k' e where x: "x = (k', e)" by (cases x)
  let ?m = "case Clone e of None \<Rightarrow> m | Some c \<Rightarrow> AList.update k' c m"
  from Cons.prems x have d: "distinct (map fst other)" and n: "map_of other k' = None"
    by (auto simp: map_of_eq_None_iff)
  have "clone_into Clone (x # other) m = clone_into Clone other ?m"
    by (simp add: clone_into_def x)
  with Cons.IH [OF d, of ?m] have eq: "map_of (clone_into Clone (x # other) m) k =
     (case map_of other k of
        None \<Rightarrow> map_of ?m k
      | Some e \<Rightarrow> (case Clone e of None \<Rightarrow> map_of ?m k | Some c \<Rightarrow> Some c))"
    by simp
  show ?case
  proof (cases "k = k'")
    case True
    with eq n x show ?thesis by (simp add: update_conv' split: option.splits)
  next
    case False
    then have "map_of ?m k = map_of m k" by (simp add: update_conv' split: option.splits)
    with eq False x show ?thesis by (simp split: option.splits)
  qed
qed

lemma CreateScope_factories:
  "distinct (map fst (m_factories parent)) \<Longrightarrow>
   map_of (m_factories (CreateScope parent)) T =
     (case map_of (m_factories parent) T of
        None \<Rightarrow> None
      | Some f \<Rightarrow> if Scope f = Local then Some f else None)"
  by (cases "map_of (m_factories parent) T")
    (auto simp: CreateScope_def clone_into_map_of Factory_Clone_def intro: Scope.exhaust)

lemma CreateScope_instances:
  "distinct (map fst (m_instances parent)) \<Longrightarrow>
   map_of (m_instances (CreateScope parent)) T =
     (case map_of (m_instances parent) T of
        None \<Rightarrow> None
      | Some i \<Rightarrow> if Scope i = Singleton then Some i else None)"
  by (cases "map_of (m_instances parent) T")
    (auto simp: CreateScope_def clone_into_map_of Instance_Clone_def intro: Scope.exhaust)

subsection \<open>Objects are never taken back\<close>

lemma grows_simps [simp]:
  "grows s None" "grows s (Raise e)"
  "grows s (Return x s') \<longleftrightarrow> length (objects s) \<le> length (objects s')"
  by (simp_all add: grows_def)

lemma grows_and_then:
  assumes "grows s r" and "\<And>x s1. r = Return x s1 \<Longrightarrow> grows s1 (f x s1)"
  shows "grows s (and_then r f)"
proof (cases r)
  case None
  then show ?thesis by simp
next
  case (Some v)
  show ?thesis
  proof (cases v)
    case (Inl e)
    with Some show ?thesis by simp
  next
    case (Inr xs)
    obtain x s1 where xs: "xs = (x, s1)" by (cases xs)
    with Some Inr have r: "r = Return x s1" by simp
    with assms(1) have 1: "length (objects s) \<le> length (objects s1)" by simp
    from assms(2) [OF r] have 2: "grows s1 (f x s1)" .
    show ?thesis
    proof (cases "f x s1")
      case None
      with r show ?thesis by simp
    next
      case (Some w)
      with r 1 2 show ?thesis by (cases w) (auto simp: grows_def)
    qed
  qed
qed

lemma Require_ref_grows:
  "(\<And>T s. grows s (req T s)) \<Longrightarrow> grows s (Require_ref req T s)"
  unfolding Require_ref_def
  by (rule grows_and_then) (auto split: option.splits)

lemma BuildParameter_grows:
  "(\<And>T s. grows s (req T s)) \<Longrightarrow> grows s (BuildParameter req p s)"
proof (cases p)
  case (Ptr T)
  assume "\<And>T s. grows s (req T s)"
  with Ptr show ?thesis by simp
next
  case (Ref T)
  assume "\<And>T s. grows s (req T s)"
  then have "grows s (Require_ref req T s)" by (rule Require_ref_grows)
  then have "grows s (and_then (Require_ref req T s) (\<lambda>a s'. Return (Some a) s'))"
    by (rule grows_and_then) simp
  with Ref show ?thesis by simp
qed

lemma one_by_one_grows:
  assumes "\<And>T s. grows s (req T s)"
  shows "grows s (one_by_one req ps s)"
proof (induction ps arbitrary: s)
  case Nil
  show ?case by simp
next
  case (Cons p ps)
  have "grows s (and_then (BuildParameter req p s) (\<lambda>a s1.
       and_then (one_by_one req ps s1) (\<lambda>as s2. Return (a # as) s2)))"
  proof (rule grows_and_then)
    show "grows s (BuildParameter req p s)" using assms by (rule BuildParameter_grows)
  next
    fix a s1
    show "grows s1 (and_then (one_by_one req ps s1) (\<lambda>as s2. Return (a # as) s2))"
      by (rule grows_and_then [OF Cons.IH]) simp
  qed
  then show ?case by simp
qed

lemma BuildParameters_grows:
  assumes "\<And>T s. grows s (req T s)"
  shows "grows s (BuildParameters req ord ps s)"
proof (cases ord)
  case LeftToRight
  with one_by_one_grows [of req s ps, OF assms] show ?thesis by (simp add: BuildParameters_def)
next
  case RightToLeft
  have "grows s (and_then (one_by_one req (rev ps) s) (\<lambda>as s'. Return (rev as) s'))"
    by (rule grows_and_then [OF one_by_one_grows [of req, OF assms]]) simp
  with RightToLeft show ?thesis by (simp add: BuildParameters_def)
qed

lemma call_grows:
  assumes "closures_keep_objects prog" and "\<And>T s. grows s (req T s)"
  shows "grows s (call prog req b s)"
proof (cases b)
  case (As T)
  show ?thesis
  proof (cases "ConstructorDescriptor (class_of prog) T")
    case None
    with As show ?thesis by simp
  next
    case (Some ps)
    have "grows s (and_then (BuildParameters req (arg_order prog) ps s) (\<lambda>args s'. make_unique T args s'))"
      by (rule grows_and_then [OF BuildParameters_grows [of req, OF assms(2)]])
        (simp add: make_unique_def)
    with As Some show ?thesis by simp
  qed
next
  case (Closure i)
  with assms show ?thesis by (simp add: closures_keep_objects_def)
qed

lemma Provide_builder_grows:
  assumes "closures_keep_objects prog" and "\<And>T s. grows s (req T s)"
  shows "grows s (Provide_builder prog req T b scope s)"
  unfolding Provide_builder_def
  by (rule grows_and_then [OF call_grows [of prog req, OF assms]]) simp

lemma Require_body_grows:
  assumes "closures_keep_objects prog" and "\<And>T s. grows s (req T s)"
  shows "grows s (Require_body prog req T s)"
proof (cases "map_of (m_instances (ctx s)) T")
  case (Some inst)
  then show ?thesis by (simp add: Require_body_def)
next
  case None
  show ?thesis
  proof (cases "map_of (m_factories (ctx s)) T")
    case (Some factory)
    have "grows s (and_then (call prog req (Builder factory) s) (\<lambda>handle s'.
                 Return handle (assign_instance T \<lparr>Scope = Local, Handle = handle\<rparr> s')))"
      by (rule grows_and_then [OF call_grows [of prog req, OF assms]]) simp
    with None Some show ?thesis by (simp add: Require_body_def)
  next
    case nf: None
    show ?thesis
    proof (cases "Constructible (class_of prog T)")
      case True
      have "grows s (Provide_builder prog req T (As T) Local s)"
        using assms by (rule Provide_builder_grows)
      with True have "grows s (Provide prog req T Local s)" by (simp add: Provide_def)
      then have "grows s (and_then (Provide prog req T Local s) (\<lambda>_ s'. req T s'))"
        by (rule grows_and_then) (rule assms(2))
      with None nf True show ?thesis by (simp add: Require_body_def)
    next
      case False
      with None nf show ?thesis by (simp add: Require_body_def)
    qed
  qed
qed

lemma Require_ptr_grows:
  "closures_keep_objects prog \<Longrightarrow> grows s (Require_ptr prog n T s)"
proof (induction n arbitrary: T s)
  case 0
  show ?case by simp
next
  case (Suc n)
  have "grows s (Require_body prog (Require_ptr prog n) T s)"
    using Suc.prems by (rule Require_body_grows) (rule Suc.IH [OF Suc.prems])
  then show ?case by simp
qed

lemma call_As_fresh:
  assumes "closures_keep_objects prog"
    and "call prog (Require_ptr prog n) (As U) s = Return h s'"
  shows "\<exists>q. h = Some q \<and> length (objects s) \<le> q \<and> q < length (objects s')
            \<and> class_name (objects s' ! q) = U"
proof -
  from assms(2) obtain ps args s1 where
    b: "BuildParameters (Require_ptr prog n) (arg_order prog) ps s = Return args s1"
    and m: "make_unique U args s1 = Return h s'"
    by (auto simp: and_then_Return split: option.splits if_splits)
  have "grows s (BuildParameters (Require_ptr prog n) (arg_order prog) ps s)"
    by (rule BuildParameters_grows) (rule Require_ptr_grows [OF assms(1)])
  with b have "length (objects s) \<le> length (objects s1)" by simp
  with m show ?thesis by (auto simp: make_unique_def)
qed


text \<open>
  C2. Let \<open>child\<close> be the container \<^verbatim>\<open>CreateScope()\<close> makes of a container whose maps hold
  one entry for a key. For every type, the child holds the parent's builder exactly
  when it is \<^verbatim>\<open>Local\<close>, and the parent's instance, with the same handle, exactly when it
  is \<^verbatim>\<open>Singleton\<close>. So for a \<^verbatim>\<open>Singleton\<close> instance of the parent \<^verbatim>\<open>Require<T*>()\<close> in the
  child returns the parent's handle and builds nothing. For a type with a \<^verbatim>\<open>Local\<close>
  instance and a \<^verbatim>\<open>Local\<close> builder in the parent, \<^verbatim>\<open>Require<T*>()\<close> in the child calls the
  builder in the child and returns and stores what it returns; when the builder is
  \<^verbatim>\<open>As<U>()\<close> (and the program's closures only allocate), that is an object allocated
  after the scope was created, so it is not the parent's instance.
\<close>

theorem C2_CreateScope_inheritance:
  assumes "distinct (map fst (m_instances (ctx s)))"
    and "distinct (map fst (m_factories (ctx s)))"
    and "child = s\<lparr>ctx := CreateScope (ctx s)\<rparr>"
  shows "map_of (m_factories (ctx child)) T =
           (case map_of (m_factories (ctx s)) T of
              None \<Rightarrow> None
            | Some f \<Rightarrow> if Scope f = Local then Some f else None)
     \<and> map_of (m_instances (ctx child)) T =
           (case map_of (m_instances (ctx s)) T of
              None \<Rightarrow> None
            | Some i \<Rightarrow> if Scope i = Singleton then Some i else None)
     \<and> (map_of (m_instances (ctx s)) T = Some \<lparr>Scope = Singleton, Handle = h\<rparr> \<longrightarrow>
          (\<forall>prog n. Require_ptr prog (Suc n) T child = Return h child))
     \<and> (map_of (m_instances (ctx s)) T = Some \<lparr>Scope = Local, Handle = Some p\<rparr>
          \<and> map_of (m_factories (ctx s)) T = Some \<lparr>Scope = Local, Builder = b\<rparr>
          \<and> call prog (Require_ptr prog n) b child = Return h s' \<longrightarrow>
            Require_ptr prog (Suc n) T child
              = Return h (assign_instance T \<lparr>Scope = Local, Handle = h\<rparr> s')
            \<and> (closures_keep_objects prog \<and> b = As U \<and> p < length (objects s) \<longrightarrow>
                  (\<exists>q. h = Some q \<and> q \<noteq> p \<and> length (objects s) \<le> q)))"
proof (intro conjI impI)
  from assms show f: "map_of (m_factories (ctx child)) T =
           (case map_of (m_factories (ctx s)) T of
              None \<Rightarrow> None
            | Some f \<Rightarrow> if Scope f = Local then Some f else None)"
    by (simp add: CreateScope_factories)
  from assms show i: "map_of (m_instances (ctx child)) T =
           (case map_of (m_instances (ctx s)) T of
              None \<Rightarrow> None
            | Some i \<Rightarrow> if Scope i = Singleton then Some i else None)"
    by (simp add: CreateScope_instances)
  {
    assume "map_of (m_instances (ctx s)) T = Some \<lparr>Scope = Singleton, Handle = h\<rparr>"
    with i have "map_of (m_instances (ctx child)) T = Some \<lparr>Scope = Singleton, Handle = h\<rparr>"
      by simp
    from Require_ptr_cached [OF this]
    show "\<forall>prog n. Require_ptr prog (Suc n) T child = Return h child" by simp
  }
  {
    assume a: "map_of (m_instances (ctx s)) T = Some \<lparr>Scope = Local, Handle = Some p\<rparr>
          \<and> map_of (m_factories (ctx s)) T = Some \<lparr>Scope = Local, Builder = b\<rparr>
          \<and> call prog (Require_ptr prog n) b child = Return h s'"
    with i f have "map_of (m_instances (ctx child)) T = None"
      "map_of (m_factories (ctx child)) T = Some \<lparr>Scope = Local, Builder = b\<rparr>"
      by simp_all
    with a show "Require_ptr prog (Suc n) T child
              = Return h (assign_instance T \<lparr>Scope = Local, Handle = h\<rparr> s')"
      by (simp add: Require_body_def)
    assume k: "closures_keep_objects prog \<and> b = As U \<and> p < length (objects s)"
    with a have "call prog (Require_ptr prog n) (As U) child = Return h s'" by simp
    from call_As_fresh [OF _ this] k obtain q where "h = Some q" "length (objects child) \<le> q"
      by blast
    with k assms(3) show "\<exists>q. h = Some q \<and> q \<noteq> p \<and> length (objects s) \<le> q"
      by auto
  }
qed

lemma example_closures_keep_objects: "closures_keep_objects (example ord)"
  unfolding closures_keep_objects_def
proof (intro allI impI)
  fix i req s
  show "grows s (closure_body (example ord) i req s)"
    by (cases i) (simp_all add: make_unique_def)
qed

theorem C2_witness:
  "(\<exists>s1. Provide (example LeftToRight) (Require_ptr (example LeftToRight) 0) ''B'' Singleton empty_state
            = Return () s1
        \<and> Provide (example LeftToRight) (Require_ptr (example LeftToRight) 0) ''C'' Local s1
            = Return () scoped_parent)
   \<and> CreateScope (ctx scoped_parent)
       = \<lparr>m_instances = [(''B'', \<lparr>Scope = Singleton, Handle = Some 0\<rparr>)],
          m_factories = [(''C'', \<lparr>Scope = Local, Builder = As ''C''\<rparr>)]\<rparr>
   \<and> Require_ptr (example LeftToRight) 1 ''B'' (scoped_parent\<lparr>ctx := CreateScope (ctx scoped_parent)\<rparr>)
       = Return (Some 0) (scoped_parent\<lparr>ctx := CreateScope (ctx scoped_parent)\<rparr>)
   \<and> (\<exists>s'. Require_ptr (example LeftToRight) 1 ''C''
              (scoped_parent\<lparr>ctx := CreateScope (ctx scoped_parent)\<rparr>) = Return (Some 2) s')"
proof -
  let ?p = "example LeftToRight"
  let ?child = "scoped_parent\<lparr>ctx := CreateScope (ctx scoped_parent)\<rparr>"
  let ?s' = "?child\<lparr>objects := objects scoped_parent @ [\<lparr>class_name = ''C'', ctor_args = []\<rparr>]\<rparr>"
  have d: "distinct (map fst (m_instances (ctx scoped_parent)))"
    "distinct (map fst (m_factories (ctx scoped_parent)))"
    by (simp_all add: scoped_parent_def)
  have prov: "\<exists>s1. Provide ?p (Require_ptr ?p 0) ''B'' Singleton empty_state = Return () s1
        \<and> Provide ?p (Require_ptr ?p 0) ''C'' Local s1 = Return () scoped_parent"
    by (simp add: Provide_def Provide_builder_def BuildParameters_def make_unique_def
        assign_instance_def assign_factory_def empty_state_def scoped_parent_def)
  have cs: "CreateScope (ctx scoped_parent)
       = \<lparr>m_instances = [(''B'', \<lparr>Scope = Singleton, Handle = Some 0\<rparr>)],
          m_factories = [(''C'', \<lparr>Scope = Local, Builder = As ''C''\<rparr>)]\<rparr>"
    by (simp add: CreateScope_def clone_into_def Instance_Clone_def Factory_Clone_def
        scoped_parent_def)
  have b: "map_of (m_instances (ctx scoped_parent)) ''B'' = Some \<lparr>Scope = Singleton, Handle = Some 0\<rparr>"
    and c: "map_of (m_instances (ctx scoped_parent)) ''C'' = Some \<lparr>Scope = Local, Handle = Some 1\<rparr>"
    "map_of (m_factories (ctx scoped_parent)) ''C'' = Some \<lparr>Scope = Local, Builder = As ''C''\<rparr>"
    and l: "1 < length (objects scoped_parent)"
    by (simp_all add: scoped_parent_def)
  have call: "call ?p (Require_ptr ?p 0) (As ''C'') ?child = Return (Some 2) ?s'"
    by (simp add: BuildParameters_def make_unique_def scoped_parent_def)
  from C2_CreateScope_inheritance [OF d refl, where T = "''B''" and h = "Some 0"] b
  have 1: "Require_ptr ?p (Suc 0) ''B'' ?child = Return (Some 0) ?child"
    by blast
  from C2_CreateScope_inheritance [OF d refl, where T = "''C''" and p = 1 and b = "As ''C''"
      and prog = ?p and n = 0 and h = "Some 2" and s' = ?s' and U = "''C''"]
    c call l example_closures_keep_objects [of LeftToRight]
  have 2: "Require_ptr ?p (Suc 0) ''C'' ?child
      = Return (Some 2) (assign_instance ''C'' \<lparr>Scope = Local, Handle = Some 2\<rparr> ?s')"
    by blast
  from prov cs 1 2 show ?thesis by (simp del: Require_ptr.simps)
qed

text \<open>
  C3 fails on the code. After \<^verbatim>\<open>Provide<B>(Scope::Singleton)\<close> in an empty container,
  \<^verbatim>\<open>CreateScope()\<close> gives the child an \<^verbatim>\<open>Instance<B>\<close> whose \<^verbatim>\<open>Handle\<close> is a second
  \<^verbatim>\<open>std::unique_ptr\<close> to object 0 (line 249). Destroying the child deletes object 0
  while the parent still holds it, and destroying the parent deletes it again.
\<close>

theorem C3_child_destruction_deletes_singleton:
  "Provide (example LeftToRight) (Require_ptr (example LeftToRight) 0) ''B'' Singleton empty_state
     = Return ()
         \<lparr>ctx = \<lparr>m_instances = [(''B'', \<lparr>Scope = Singleton, Handle = Some 0\<rparr>)],
                 m_factories = [(''B'', \<lparr>Scope = Singleton, Builder = As ''B''\<rparr>)]\<rparr>,
          objects = [\<lparr>class_name = ''B'', ctor_args = []\<rparr>], deleted = []\<rparr>
   \<and> CreateScope \<lparr>m_instances = [(''B'', \<lparr>Scope = Singleton, Handle = Some 0\<rparr>)],
                  m_factories = [(''B'', \<lparr>Scope = Singleton, Builder = As ''B''\<rparr>)]\<rparr>
       = \<lparr>m_instances = [(''B'', \<lparr>Scope = Singleton, Handle = Some 0\<rparr>)], m_factories = []\<rparr>
   \<and> destroy \<lparr>m_instances = [(''B'', \<lparr>Scope = Singleton, Handle = Some 0\<rparr>)], m_factories = []\<rparr>
        \<lparr>ctx = \<lparr>m_instances = [(''B'', \<lparr>Scope = Singleton, Handle = Some 0\<rparr>)],
                m_factories = [(''B'', \<lparr>Scope = Singleton, Builder = As ''B''\<rparr>)]\<rparr>,
         objects = [\<lparr>class_name = ''B'', ctor_args = []\<rparr>], deleted = []\<rparr>
       = \<lparr>ctx = \<lparr>m_instances = [(''B'', \<lparr>Scope = Singleton, Handle = Some 0\<rparr>)],
                 m_factories = [(''B'', \<lparr>Scope = Singleton, Builder = As ''B''\<rparr>)]\<rparr>,
          objects = [\<lparr>class_name = ''B'', ctor_args = []\<rparr>], deleted = [0]\<rparr>
   \<and> deleted (destroy \<lparr>m_instances = [(''B'', \<lparr>Scope = Singleton, Handle = Some 0\<rparr>)],
                        m_factories = [(''B'', \<lparr>Scope = Singleton, Builder = As ''B''\<rparr>)]\<rparr>
        \<lparr>ctx = \<lparr>m_instances = [(''B'', \<lparr>Scope = Singleton, Handle = Some 0\<rparr>)],
                 m_factories = [(''B'', \<lparr>Scope = Singleton, Builder = As ''B''\<rparr>)]\<rparr>,
          objects = [\<lparr>class_name = ''B'', ctor_args = []\<rparr>], deleted = [0]\<rparr>)
       = [0, 0]"
  by (simp add: Provide_def Provide_builder_def BuildParameters_def make_unique_def
      assign_instance_def assign_factory_def empty_state_def CreateScope_def clone_into_def
      Instance_Clone_def Factory_Clone_def destroy_def release_def)

end
